theory Spec2Isabelle
  imports Complex_Main "HOL-Library.Word" "HOL-Library.Sublist"
begin

section \<open>JavaScript strings\<close>

text \<open>
  A JavaScript string is a sequence of UTF-16 code units; \<open>length\<close>, \<open>indexOf\<close>,
  \<open>substring\<close> and the regular expression of \<open>escapeHtml\<close> all count code units.
  \<open>str\<close> embeds an ASCII literal of the source.
\<close>

type_synonym jschar = "16 word"
type_synonym jsstring = "jschar list"

definition str :: "string \<Rightarrow> jsstring" where
  "str s = map (\<lambda>c. of_nat (of_char c)) s"

text \<open>
  \<open>String.prototype.trim\<close> removes WhiteSpace and LineTerminator code units from both
  ends: TAB, LF, VT, FF, CR, SP, NBSP, the Unicode space separators, LS, PS and the BOM.
\<close>

definition isWhiteSpace :: "jschar \<Rightarrow> bool" where
  "isWhiteSpace c \<longleftrightarrow>
     c \<in> {0x0009, 0x000A, 0x000B, 0x000C, 0x000D, 0x0020, 0x00A0, 0x1680,
          0x2000, 0x2001, 0x2002, 0x2003, 0x2004, 0x2005, 0x2006, 0x2007,
          0x2008, 0x2009, 0x200A, 0x2028, 0x2029, 0x202F, 0x205F, 0x3000, 0xFEFF}"

definition trim :: "jsstring \<Rightarrow> jsstring" where
  "trim s = rev (dropWhile isWhiteSpace (rev (dropWhile isWhiteSpace s)))"

text \<open>\<open>s.indexOf(needle)\<close>: the first position where \<open>needle\<close> starts, or \<open>-1\<close>.\<close>

fun indexOfFrom :: "jsstring \<Rightarrow> jsstring \<Rightarrow> int \<Rightarrow> int" where
  "indexOfFrom [] needle i = (if needle = [] then i else - 1)"
| "indexOfFrom (c # cs) needle i =
     (if prefix needle (c # cs) then i else indexOfFrom cs needle (i + 1))"

definition indexOf :: "jsstring \<Rightarrow> jsstring \<Rightarrow> int" where
  "indexOf s needle = indexOfFrom s needle 0"

text \<open>\<open>s.includes(needle)\<close>.\<close>

definition includes_str :: "jsstring \<Rightarrow> jsstring \<Rightarrow> bool" where
  "includes_str s needle \<longleftrightarrow> indexOf s needle \<noteq> - 1"

text \<open>
  \<open>s.substring(a, b)\<close> clamps both indices to the length and swaps them when
  \<open>a > b\<close>; \<open>s.substring(a)\<close> runs to the end.
\<close>

definition substring :: "jsstring \<Rightarrow> nat \<Rightarrow> nat \<Rightarrow> jsstring" where
  "substring s a b =
     (let a' = min a (length s); b' = min b (length s);
          lo = min a' b'; hi = max a' b'
      in take (hi - lo) (drop lo s))"

definition substringFrom :: "jsstring \<Rightarrow> nat \<Rightarrow> jsstring" where
  "substringFrom s a = drop (min a (length s)) s"

text \<open>\<open>s.split('\n')[0]\<close>: everything before the first line feed.\<close>

definition firstLineOf :: "jsstring \<Rightarrow> jsstring" where
  "firstLineOf s = takeWhile (\<lambda>c. c \<noteq> 0x000A) s"


section \<open>Source document view\<close>

text \<open>
  A citation as the chat endpoint returns it and the views read it. A field that the
  JSON may lack is an option; \<open>None\<close> is JavaScript's \<open>undefined\<close>.
\<close>

record citation =
  filename :: "jsstring option"
  preview :: "jsstring option"
  relevance_score :: rat
  web_url :: "jsstring option"
  has_watermark :: bool

text \<open>JavaScript truthiness of a string that may be undefined.\<close>

fun truthy :: "jsstring option \<Rightarrow> bool" where
  "truthy None = False"
| "truthy (Some s) = (s \<noteq> [])"

text \<open>
  \<open>escapeHtml\<close>: the object \<open>map\<close> and the replacement of every match of
  \<open>/[&<>"']/g\<close> by its entry.
\<close>

definition escapeMap :: "jschar \<Rightarrow> jsstring option" where
  "escapeMap m =
     (if m = 0x26 then Some (str ''&amp;'')
      else if m = 0x3C then Some (str ''&lt;'')
      else if m = 0x3E then Some (str ''&gt;'')
      else if m = 0x22 then Some (str ''&quot;'')
      else if m = 0x27 then Some (str ''&#039;'')
      else None)"

definition escapeHtml :: "jsstring \<Rightarrow> jsstring" where
  "escapeHtml text = concat (map (\<lambda>m. case escapeMap m of Some e \<Rightarrow> e | None \<Rightarrow> [m]) text)"

definition findChunkInDocument :: "jsstring \<Rightarrow> jsstring \<Rightarrow> int" where
  "findChunkInDocument fullDoc chunk =
     (let chunkTrimmed = trim chunk;
          index0 = indexOf fullDoc chunkTrimmed;
          index1 = (if index0 = - 1
                    then indexOf fullDoc (substring chunkTrimmed 0 100)
                    else index0);
          index2 = (if index1 = - 1
                    then (let firstLine = trim (firstLineOf chunkTrimmed)
                          in if length firstLine > 20 then indexOf fullDoc firstLine else index1)
                    else index1)
      in index2)"

definition markOpen :: jsstring where
  "markOpen = str ''<mark class=\"bg-primary/50 text-gray-100 px-1 rounded\" id=\"highlighted-chunk\">''"

definition markClose :: jsstring where
  "markClose = str ''</mark>''"

text \<open>
  \<open>highlightChunkInOriginal(fullDoc)\<close> reads \<open>source.value\<close>, which is \<open>null\<close> until the
  route parameter has been parsed.
\<close>

definition highlightChunkInOriginal :: "citation option \<Rightarrow> jsstring \<Rightarrow> jsstring" where
  "highlightChunkInOriginal src fullDoc =
     (case (case src of None \<Rightarrow> None | Some s \<Rightarrow> preview s) of
        None \<Rightarrow> escapeHtml fullDoc
      | Some pv \<Rightarrow>
          if fullDoc = [] \<or> pv = [] then escapeHtml fullDoc
          else
            let chunkIndex = findChunkInDocument fullDoc pv in
            if chunkIndex = - 1 then escapeHtml fullDoc
            else
              let chunkLength = length (trim pv);
                  beforeText = substring fullDoc 0 (nat chunkIndex);
                  chunk = substring fullDoc (nat chunkIndex) (nat chunkIndex + chunkLength);
                  after = substringFrom fullDoc (nat chunkIndex + chunkLength)
              in escapeHtml beforeText @ markOpen @ escapeHtml chunk @ markClose @ escapeHtml after)"


text \<open>
  The outcome of an axios call that did not succeed: no response at all, or a response
  with a status and a JSON body whose \<open>detail\<close> may be missing.
\<close>

datatype http_error = NetworkError | HttpError (status: int) (detail: "jsstring option")

datatype effect =
    PostChat jsstring
  | GetDocument jsstring
  | SetTyping bool
  | SetLoading bool
  | ScrollToBottom
  | ScrollToChunk

record view_state =
  source :: "citation option"
  fullDocument :: "jsstring option"
  loadingDocument :: bool

text \<open>
  \<open>fetchFullDocument\<close>, with the document endpoint as a parameter: \<open>get fn\<close> is
  either the failure that axios throws or \<open>response.data.content\<close>.
\<close>

definition fetchFullDocument ::
  "(jsstring \<Rightarrow> http_error + jsstring option) \<Rightarrow> view_state \<Rightarrow> view_state \<times> effect list" where
  "fetchFullDocument get st =
     (case (case source st of None \<Rightarrow> None | Some s \<Rightarrow> filename s) of
        None \<Rightarrow> (st\<lparr>loadingDocument := False\<rparr>, [SetLoading False])
      | Some fn \<Rightarrow>
          if fn = [] then (st\<lparr>loadingDocument := False\<rparr>, [SetLoading False])
          else
            (case get fn of
               Inr content \<Rightarrow>
                 (st\<lparr>fullDocument := content, loadingDocument := False\<rparr>,
                  [SetLoading True, GetDocument fn, ScrollToChunk, SetLoading False])
             | Inl err \<Rightarrow>
                 (st\<lparr>fullDocument := (case source st of None \<Rightarrow> None | Some s \<Rightarrow> preview s),
                     loadingDocument := False\<rparr>,
                  [SetLoading True, GetDocument fn, SetLoading False])))"


section \<open>Chat view\<close>

datatype role = User | Assistant

record message =
  role :: role
  content :: jsstring
  msg_sources :: "citation list option"
  msg_context_used :: "bool option"
  msg_num_sources :: "int option"
  expandedSources :: "nat list option"

text \<open>\<open>response.data\<close> of a successful \<open>POST /api/chat\<close>.\<close>

record chat_data =
  data_response :: jsstring
  data_sources :: "citation list option"
  data_context_used :: "bool option"
  data_num_sources :: "int option"

record home_state =
  messages :: "message list"
  inputMessage :: jsstring
  isTyping :: bool

definition userMessage :: "jsstring \<Rightarrow> message" where
  "userMessage c =
     \<lparr>role = User, content = c, msg_sources = None, msg_context_used = None,
      msg_num_sources = None, expandedSources = None\<rparr>"

text \<open>The assistant message of the \<open>try\<close> branch; \<open>x || d\<close> takes \<open>d\<close> for a falsy \<open>x\<close>.\<close>

definition assistantMessage :: "chat_data \<Rightarrow> message" where
  "assistantMessage d =
     \<lparr>role = Assistant,
      content = data_response d,
      msg_sources = Some (case data_sources d of None \<Rightarrow> [] | Some ss \<Rightarrow> ss),
      msg_context_used = Some (case data_context_used d of None \<Rightarrow> False | Some b \<Rightarrow> b),
      msg_num_sources = Some (case data_num_sources d of None \<Rightarrow> 0 | Some n \<Rightarrow> n),
      expandedSources = Some []\<rparr>"

text \<open>The text of the \<open>catch\<close> branch.\<close>

definition errorMessage :: "http_error \<Rightarrow> jsstring" where
  "errorMessage err =
     str ''I'm having trouble processing your request. '' @
     (case err of
        NetworkError \<Rightarrow>
          str ''Please make sure the backend service is running and configured properly.''
      | HttpError st dt \<Rightarrow>
          if st = 400 \<and> (case dt of None \<Rightarrow> False | Some d \<Rightarrow> includes_str d (str ''API_KEY''))
          then str ''Please configure your AI model API key in Settings.''
          else if truthy dt then the dt
          else str ''Please make sure the backend service is running and configured properly.'')"

definition failureMessage :: "http_error \<Rightarrow> message" where
  "failureMessage err =
     \<lparr>role = Assistant, content = errorMessage err, msg_sources = Some [],
      msg_context_used = None, msg_num_sources = None, expandedSources = None\<rparr>"

text \<open>
  \<open>sendMessage\<close>, with the chat endpoint as a parameter. The result is the state when
  the promise settles and the effects in the order they happen.
\<close>

definition sendMessage ::
  "(jsstring \<Rightarrow> http_error + chat_data) \<Rightarrow> jsstring \<Rightarrow> home_state \<Rightarrow> home_state \<times> effect list" where
  "sendMessage post c st =
     (if trim c = [] then (st, [])
      else
        let st1 = st\<lparr>messages := messages st @ [userMessage c], inputMessage := [], isTyping := True\<rparr>;
            reply = (case post c of Inr d \<Rightarrow> assistantMessage d | Inl err \<Rightarrow> failureMessage err)
        in (st1\<lparr>messages := messages st1 @ [reply], isTyping := False\<rparr>,
            [ScrollToBottom, SetTyping True, PostChat c, SetTyping False, ScrollToBottom]))"

definition handleSubmit ::
  "(jsstring \<Rightarrow> http_error + chat_data) \<Rightarrow> home_state \<Rightarrow> home_state \<times> effect list" where
  "handleSubmit post st =
     (if trim (inputMessage st) \<noteq> [] \<and> \<not> isTyping st
      then sendMessage post (inputMessage st) st
      else (st, []))"

text \<open>
  The sources section of the template: shown for an assistant message with a non-empty
  \<open>sources\<close>; \<open>v-for="(source, idx) in message.sources"\<close> puts \<open>idx + 1\<close> on the badge
  of each card.
\<close>

definition sourceCards :: "message \<Rightarrow> (nat \<times> citation) list" where
  "sourceCards m =
     (case msg_sources m of
        None \<Rightarrow> []
      | Some ss \<Rightarrow>
          if role m = Assistant \<and> length ss > 0
          then map (\<lambda>(idx, s). (idx + 1, s)) (enumerate 0 ss)
          else [])"


section \<open>Settings view\<close>

record form_data =
  form_provider :: jsstring
  form_model_name :: jsstring
  form_temperature :: rat
  form_api_key :: jsstring

text \<open>The body of \<open>POST /api/model/config\<close>; an absent property is \<open>None\<close>.\<close>

record payload =
  provider :: jsstring
  model_name :: jsstring
  temperature :: rat
  openai_api_key :: "jsstring option"
  anthropic_api_key :: "jsstring option"
  google_api_key :: "jsstring option"

text \<open>The payload that \<open>saveConfig\<close> builds from the form.\<close>

definition savePayload :: "form_data \<Rightarrow> payload" where
  "savePayload fd =
     (let p = \<lparr>provider = form_provider fd, model_name = form_model_name fd,
               temperature = form_temperature fd, openai_api_key = None,
               anthropic_api_key = None, google_api_key = None\<rparr>
      in if form_api_key fd \<noteq> [] then
           (if form_provider fd = str ''openai'' then p\<lparr>openai_api_key := Some (form_api_key fd)\<rparr>
            else if form_provider fd = str ''anthropic'' then p\<lparr>anthropic_api_key := Some (form_api_key fd)\<rparr>
            else if form_provider fd = str ''gemini'' then p\<lparr>google_api_key := Some (form_api_key fd)\<rparr>
            else p)
         else p)"

text \<open>The three credential properties of a payload, present or not.\<close>

definition credential_fields :: "payload \<Rightarrow> jsstring option list" where
  "credential_fields p = [openai_api_key p, anthropic_api_key p, google_api_key p]"

text \<open>The body of \<open>GET /api/model/config\<close> as the view reads it.\<close>

record config_data =
  cfg_provider :: jsstring
  cfg_model_name :: jsstring
  cfg_temperature :: rat
  api_key_set :: bool

text \<open>The form that \<open>loadConfig\<close> sets from a successful read.\<close>

definition loadForm :: "config_data \<Rightarrow> form_data" where
  "loadForm c =
     \<lparr>form_provider = cfg_provider c, form_model_name = cfg_model_name c,
      form_temperature = cfg_temperature c, form_api_key = []\<rparr>"


text \<open>The ref \<open>message\<close> of the settings view: its type and text.\<close>

datatype notice = Success jsstring | Failure jsstring

record provider_info =
  info_id :: jsstring
  info_name :: jsstring
  info_models :: "jsstring list"

record settings_state =
  modelConfig :: config_data
  providers :: "provider_info list"
  formData :: form_data
  saving :: bool
  notice :: "notice option"

text \<open>
  \<open>loadConfig\<close> and \<open>saveConfig\<close>, with the three endpoints as parameters over a
  backend state \<open>'b\<close>. \<open>Promise.all\<close> rejects when either read fails, and the
  \<open>catch\<close> of \<open>loadConfig\<close> only logs.
\<close>

definition loadConfig ::
  "('b \<Rightarrow> http_error + config_data) \<Rightarrow> ('b \<Rightarrow> http_error + provider_info list) \<Rightarrow>
   'b \<Rightarrow> settings_state \<Rightarrow> settings_state" where
  "loadConfig getConfig getProviders b st =
     (case getConfig b of
        Inl err \<Rightarrow> st
      | Inr c \<Rightarrow>
          (case getProviders b of
             Inl err \<Rightarrow> st
           | Inr ps \<Rightarrow> st\<lparr>modelConfig := c, providers := ps, formData := loadForm c\<rparr>))"

definition saveFailureText :: "http_error \<Rightarrow> jsstring" where
  "saveFailureText err =
     (case err of
        NetworkError \<Rightarrow> str ''Failed to save configuration''
      | HttpError st dt \<Rightarrow> if truthy dt then the dt else str ''Failed to save configuration'')"

definition saveConfig ::
  "(payload \<Rightarrow> 'b \<Rightarrow> http_error + 'b) \<Rightarrow> ('b \<Rightarrow> http_error + config_data) \<Rightarrow>
   ('b \<Rightarrow> http_error + provider_info list) \<Rightarrow> 'b \<Rightarrow> settings_state \<Rightarrow> settings_state \<times> 'b" where
  "saveConfig postConfig getConfig getProviders b st =
     (let st1 = st\<lparr>saving := True, notice := None\<rparr>
      in case postConfig (savePayload (formData st1)) b of
           Inl err \<Rightarrow> (st1\<lparr>notice := Some (Failure (saveFailureText err)), saving := False\<rparr>, b)
         | Inr b' \<Rightarrow>
             let st2 = st1\<lparr>notice := Some (Success
                   (str ''Configuration saved successfully! The changes will take effect immediately.''))\<rparr>;
                 st3 = loadConfig getConfig getProviders b' st2
             in (st3\<lparr>saving := False\<rparr>, b'))"


section \<open>Configuration store\<close>

text \<open>
  Modelled from the spec: the providers of section 3 (the configuration code of the
  backend is not among the sources).
\<close>

datatype llm_provider = OpenAI | Anthropic | Gemini

text \<open>
  Modelled from the spec: the Model Configuration of section 3 (the configuration store
  of the backend is not among the sources): the active provider, model name and
  temperature, and the credential of each provider, if set.
\<close>

record model_configuration =
  active_provider :: llm_provider
  active_model_name :: jsstring
  active_temperature :: rat
  credentials :: "llm_provider \<Rightarrow> jsstring option"

text \<open>
  Modelled from the spec: the body of an update (section 6): it may include provider,
  model name and temperature, and at most one provider-specific credential.
\<close>

record config_update =
  upd_provider :: "llm_provider option"
  upd_model_name :: "jsstring option"
  upd_temperature :: "rat option"
  upd_credential :: "(llm_provider \<times> jsstring) option"

text \<open>
  Modelled from the spec: an update replaces the fields the body includes, all at once,
  and leaves the others.
\<close>

definition update_config :: "config_update \<Rightarrow> model_configuration \<Rightarrow> model_configuration" where
  "update_config u c =
     \<lparr>active_provider = (case upd_provider u of None \<Rightarrow> active_provider c | Some p \<Rightarrow> p),
      active_model_name = (case upd_model_name u of None \<Rightarrow> active_model_name c | Some m \<Rightarrow> m),
      active_temperature = (case upd_temperature u of None \<Rightarrow> active_temperature c | Some t \<Rightarrow> t),
      credentials = (case upd_credential u of
                       None \<Rightarrow> credentials c
                     | Some (p, k) \<Rightarrow> (credentials c)(p := Some k))\<rparr>"

text \<open>
  Modelled from the spec: what a read returns (sections 3 and 6): provider, model name,
  temperature, and for each provider only whether a credential is set.
\<close>

record config_view =
  view_provider :: llm_provider
  view_model_name :: jsstring
  view_temperature :: rat
  view_api_key_set :: "llm_provider \<Rightarrow> bool"

text \<open>
  Modelled from the spec: a read copies the active fields and reduces each credential to
  its presence (sections 3 and 6; the read endpoint of the backend is missing).
\<close>

definition read_config :: "model_configuration \<Rightarrow> config_view" where
  "read_config c =
     \<lparr>view_provider = active_provider c,
      view_model_name = active_model_name c,
      view_temperature = active_temperature c,
      view_api_key_set = (\<lambda>p. credentials c p \<noteq> None)\<rparr>"

text \<open>
  Modelled from the spec: the identifiers of the providers in JSON (section 3:
  openai, anthropic, gemini), which the serialisation of the backend would hold.
\<close>

fun provider_id :: "llm_provider \<Rightarrow> jsstring" where
  "provider_id OpenAI = str ''openai''"
| "provider_id Anthropic = str ''anthropic''"
| "provider_id Gemini = str ''gemini''"

text \<open>
  Modelled from the spec: reading a provider identifier back (section 3); any other
  string is no provider. The request decoding of the backend is missing.
\<close>

definition parse_provider :: "jsstring \<Rightarrow> llm_provider option" where
  "parse_provider s =
     (if s = str ''openai'' then Some OpenAI
      else if s = str ''anthropic'' then Some Anthropic
      else if s = str ''gemini'' then Some Gemini
      else None)"

text \<open>
  Modelled from the spec: the body of \<open>GET /api/model/config\<close> (section 6), in the shape
  the backend's documentation and the settings view use: one \<open>api_key_set\<close>, the flag of
  the active provider. The endpoint itself is missing.
\<close>

definition config_json :: "config_view \<Rightarrow> config_data" where
  "config_json v =
     \<lparr>cfg_provider = provider_id (view_provider v),
      cfg_model_name = view_model_name v,
      cfg_temperature = view_temperature v,
      api_key_set = view_api_key_set v (view_provider v)\<rparr>"

text \<open>
  Modelled from the spec: the credential fields that a body of
  \<open>POST /api/model/config\<close> includes (section 6); the endpoint is missing.
\<close>

definition payload_credentials :: "payload \<Rightarrow> (llm_provider \<times> jsstring) list" where
  "payload_credentials p =
     (case openai_api_key p of None \<Rightarrow> [] | Some k \<Rightarrow> [(OpenAI, k)]) @
     (case anthropic_api_key p of None \<Rightarrow> [] | Some k \<Rightarrow> [(Anthropic, k)]) @
     (case google_api_key p of None \<Rightarrow> [] | Some k \<Rightarrow> [(Gemini, k)])"

text \<open>
  Modelled from the spec: decoding the body of \<open>POST /api/model/config\<close> (section 6).
  A body with an unknown provider or with more than one credential field is malformed.
\<close>

definition decode_payload :: "payload \<Rightarrow> config_update option" where
  "decode_payload p =
     (case parse_provider (provider p) of
        None \<Rightarrow> None
      | Some prov \<Rightarrow>
          (case payload_credentials p of
             [] \<Rightarrow> Some \<lparr>upd_provider = Some prov, upd_model_name = Some (model_name p),
                         upd_temperature = Some (temperature p), upd_credential = None\<rparr>
           | [c] \<Rightarrow> Some \<lparr>upd_provider = Some prov, upd_model_name = Some (model_name p),
                          upd_temperature = Some (temperature p), upd_credential = Some c\<rparr>
           | _ \<Rightarrow> None))"

text \<open>
  Modelled from the spec: \<open>POST /api/model/config\<close> (section 6) applies the decoded
  update at once; a malformed body gets a non-2xx answer and changes nothing.
\<close>

definition post_model_config :: "payload \<Rightarrow> model_configuration \<Rightarrow> http_error + model_configuration" where
  "post_model_config p c =
     (case decode_payload p of
        None \<Rightarrow> Inl (HttpError 422 None)
      | Some u \<Rightarrow> Inr (update_config u c))"

text \<open>
  Modelled from the spec: \<open>GET /api/model/config\<close> (section 6) returns the current
  configuration with the credentials redacted.
\<close>

definition get_model_config :: "model_configuration \<Rightarrow> http_error + config_data" where
  "get_model_config c = Inr (config_json (read_config c))"



section \<open>Retrieval pipeline\<close>

text \<open>
  The backend that serves \<open>POST /api/chat\<close> is not among the sources. Its components
  are modelled from sections 3, 4 and 6 of the specification; what the specification
  leaves to external services (the encoder model, the similarity of the index, the
  provider's completion) is a field of \<open>rag_env\<close>.
\<close>

text \<open>
  Modelled from the spec: the dense vector of section 4.1; only the order of similarity
  scores matters here, so numbers are rationals.
\<close>

type_synonym vector = "rat list"

text \<open>
  Modelled from the spec: the error taxonomy of section 7.
\<close>

datatype error =
    EncodingError
  | IndexUnavailableError
  | MissingCredentialError
  | ProviderRequestError jsstring

text \<open>Modelled from the spec: the Document Chunk of section 3.\<close>

record chunk =
  chunk_id :: nat
  source_filename :: jsstring
  page_number :: "nat option"
  chunk_text :: jsstring
  embedding_vector :: vector
  chunk_web_url :: "jsstring option"
  chunk_has_watermark :: bool

text \<open>Modelled from the spec: the Retrieved Passage of section 3.\<close>

record passage =
  passage_chunk_id :: nat
  text_preview :: jsstring
  score :: rat
  passage_filename :: jsstring
  passage_web_url :: "jsstring option"
  passage_has_watermark :: bool

text \<open>Modelled from the spec: the RAG Response of section 3.\<close>

record rag_response =
  answer_text :: jsstring
  sources :: "passage list"
  context_used :: bool
  num_sources :: int

text \<open>
  Modelled from the spec: the collaborators and tunables of one request (sections 2 and
  4), which the missing backend would hold. \<open>index = None\<close> is an unreachable
  backing store; \<open>encoder\<close> gives \<open>None\<close> when the model is unavailable; \<open>llm\<close> gives
  \<open>Inl\<close> with the provider's message when the request fails.
\<close>

record rag_env =
  encoder :: "jsstring \<Rightarrow> vector option"
  similarity :: "vector \<Rightarrow> vector \<Rightarrow> rat"
  index :: "chunk list option"
  top_k :: nat
  preview_of :: "jsstring \<Rightarrow> jsstring"
  delimiter :: jsstring
  budget :: nat
  system_prompt :: jsstring
  llm :: "llm_provider \<Rightarrow> jsstring \<Rightarrow> jsstring \<Rightarrow> rat \<Rightarrow> jsstring \<Rightarrow> jsstring \<Rightarrow> jsstring \<Rightarrow> jsstring + jsstring"
  config :: model_configuration

text \<open>
  Modelled from the spec: section 4.1, \<open>encode\<close> raises \<open>EncodingError\<close> if the input
  is empty or the encoder model is unavailable.
\<close>

definition encode :: "rag_env \<Rightarrow> jsstring \<Rightarrow> error + vector" where
  "encode env t =
     (if t = [] then Inl EncodingError
      else case encoder env t of None \<Rightarrow> Inl EncodingError | Some v \<Rightarrow> Inr v)"

text \<open>
  Modelled from the spec: section 4.2, \<open>search\<close> returns the hits by similarity,
  descending, equal scores in insertion order, at most \<open>top_k\<close> of them, and raises
  \<open>IndexUnavailableError\<close> if the backing store is unreachable.
\<close>

definition search :: "rag_env \<Rightarrow> vector \<Rightarrow> nat \<Rightarrow> error + (nat \<times> rat) list" where
  "search env query_vector k =
     (case index env of
        None \<Rightarrow> Inl IndexUnavailableError
      | Some chunks \<Rightarrow>
          Inr (take k (sort_key (\<lambda>h. - snd h)
                 (map (\<lambda>c. (chunk_id c, similarity env query_vector (embedding_vector c))) chunks))))"

text \<open>
  Modelled from the spec: section 4.3, the score clipped to \<open>[0, 1]\<close>.
\<close>

definition clip01 :: "rat \<Rightarrow> rat" where
  "clip01 x = max 0 (min 1 x)"

text \<open>
  Modelled from the spec: section 4.3, the passage of a hit: the metadata of its chunk,
  the preview of its text and the clipped score.
\<close>

definition to_passage :: "rag_env \<Rightarrow> rat \<Rightarrow> chunk \<Rightarrow> passage" where
  "to_passage env s c =
     \<lparr>passage_chunk_id = chunk_id c,
      text_preview = preview_of env (chunk_text c),
      score = clip01 s,
      passage_filename = source_filename c,
      passage_web_url = chunk_web_url c,
      passage_has_watermark = chunk_has_watermark c\<rparr>"

text \<open>
  Modelled from the spec: section 4.3, \<open>retrieve\<close> encodes the query, searches, fetches
  the metadata of each hit, truncates its text to a preview and attaches the similarity
  clipped to \<open>[0, 1]\<close>. The errors of the encoder and of the index propagate.
\<close>

definition retrieve :: "rag_env \<Rightarrow> jsstring \<Rightarrow> error + passage list" where
  "retrieve env query_text =
     (case encode env query_text of
        Inl e \<Rightarrow> Inl e
      | Inr qv \<Rightarrow>
          (case search env qv (top_k env) of
             Inl e \<Rightarrow> Inl e
           | Inr hits \<Rightarrow>
               Inr (List.map_filter
                      (\<lambda>(cid, s). map_option (to_passage env s)
                          (find (\<lambda>c. chunk_id c = cid) (case index env of None \<Rightarrow> [] | Some cs \<Rightarrow> cs)))
                      hits)))"

text \<open>
  Modelled from the spec: section 4.4 writes the ordinal of a citation as \<open>[1]\<close>,
  \<open>[2]\<close>, ...; these are its decimal digits.
\<close>

fun decimal :: "nat \<Rightarrow> jsstring" where
  "decimal n = (if n < 10 then [of_nat (48 + n)] else decimal (n div 10) @ [of_nat (48 + n mod 10)])"

declare decimal.simps [simp del]

text \<open>
  Modelled from the spec: section 4.4, each passage is labelled with its ordinal in the
  sequence, from 1.
\<close>

definition labelled :: "passage list \<Rightarrow> (nat \<times> passage) list" where
  "labelled ps = enumerate 1 ps"

text \<open>
  Modelled from the spec: section 4.4, an entry of the context block is the label, the
  originating filename and the preview.
\<close>

definition render_entry :: "nat \<times> passage \<Rightarrow> jsstring" where
  "render_entry e =
     str ''['' @ decimal (fst e) @ str ''] '' @ passage_filename (snd e) @ str '': '' @ text_preview (snd e)"

text \<open>
  Modelled from the spec: section 4.4, the entries are concatenated with a fixed
  delimiter.
\<close>

fun join :: "jsstring \<Rightarrow> jsstring list \<Rightarrow> jsstring" where
  "join d [] = []"
| "join d [x] = x"
| "join d (x # y # ys) = x @ d @ join d (y # ys)"

text \<open>
  Modelled from the spec: section 4.4, the character budget. While the entries exceed
  the budget the lowest-ranked one is removed entirely; only a single remaining entry
  is cut.
\<close>

function within_budget :: "rag_env \<Rightarrow> (nat \<times> passage) list \<Rightarrow> (nat \<times> passage) list" where
  "within_budget env es =
     (if length (join (delimiter env) (map render_entry es)) \<le> budget env \<or> length es \<le> 1
      then es
      else within_budget env (butlast es))"
  by pat_completeness auto
termination
  by (relation "measure (\<lambda>(env, es). length es)") auto

declare within_budget.simps [simp del]

text \<open>
  Modelled from the spec: section 4.4, the labelled passages that the budget keeps.
\<close>

definition context_entries :: "rag_env \<Rightarrow> passage list \<Rightarrow> (nat \<times> passage) list" where
  "context_entries env ps = within_budget env (labelled ps)"

text \<open>
  Modelled from the spec: section 4.4, \<open>build_context\<close> renders the kept entries within
  the budget.
\<close>

definition build_context :: "rag_env \<Rightarrow> passage list \<Rightarrow> jsstring" where
  "build_context env ps =
     take (budget env) (join (delimiter env) (map render_entry (context_entries env ps)))"

text \<open>
  Modelled from the spec: section 4.5, \<open>generate\<close> takes model name and temperature from
  the active configuration and raises \<open>MissingCredentialError\<close>, without a call to the
  provider, when the active provider has no key.
\<close>

definition generate :: "rag_env \<Rightarrow> jsstring \<Rightarrow> jsstring \<Rightarrow> jsstring \<Rightarrow> error + jsstring" where
  "generate env sys user_message context_block =
     (let c = config env
      in case credentials c (active_provider c) of
           None \<Rightarrow> Inl MissingCredentialError
         | Some key \<Rightarrow>
             (case llm env (active_provider c) (active_model_name c) key (active_temperature c)
                     sys user_message context_block of
                Inl msg \<Rightarrow> Inl (ProviderRequestError msg)
              | Inr a \<Rightarrow> Inr a))"

text \<open>
  Modelled from the spec: section 4.6, steps 1 to 5 and the error policy: an unreachable
  index is absorbed as an empty retrieval; the other errors surface.
\<close>

definition answer :: "rag_env \<Rightarrow> jsstring \<Rightarrow> error + rag_response" where
  "answer env query_text =
     (case (case retrieve env query_text of
              Inl IndexUnavailableError \<Rightarrow> Inr []
            | r \<Rightarrow> r) of
        Inl e \<Rightarrow> Inl e
      | Inr passages \<Rightarrow>
          let context = (if passages \<noteq> [] then build_context env passages else [])
          in case generate env (system_prompt env) query_text context of
               Inl e \<Rightarrow> Inl e
             | Inr a \<Rightarrow>
                 Inr \<lparr>answer_text = a, sources = passages,
                      context_used = (length passages > 0),
                      num_sources = int (length passages)\<rparr>)"

text \<open>Modelled from the spec: section 6, a source in the body of \<open>POST /api/chat\<close>.\<close>

definition to_citation :: "passage \<Rightarrow> citation" where
  "to_citation p =
     \<lparr>filename = Some (passage_filename p),
      preview = Some (text_preview p),
      relevance_score = score p,
      web_url = passage_web_url p,
      has_watermark = passage_has_watermark p\<rparr>"

text \<open>
  Modelled from the spec: section 6, the body of a successful \<open>POST /api/chat\<close>.
\<close>

definition chat_body :: "rag_response \<Rightarrow> chat_data" where
  "chat_body r =
     \<lparr>data_response = answer_text r,
      data_sources = Some (map to_citation (sources r)),
      data_context_used = Some (context_used r),
      data_num_sources = Some (num_sources r)\<rparr>"


section \<open>A small corpus\<close>

text \<open>
  The example of section 8 of the specification: a chunk "Architectural Plans" with
  similarity 0.91 and a chunk "Trade Union Records" with similarity 0.42, \<open>top_k = 3\<close>.
  The similarity of the example index reads the score off the stored vector.
\<close>

definition example_chunks :: "chunk list" where
  "example_chunks =
     [\<lparr>chunk_id = 1, source_filename = str ''Trade Union Records'', page_number = None,
       chunk_text = str ''Minutes of the union'', embedding_vector = [42 / 100],
       chunk_web_url = None, chunk_has_watermark = False\<rparr>,
      \<lparr>chunk_id = 2, source_filename = str ''Architectural Plans'', page_number = Some 4,
       chunk_text = str ''Plan of the pavilion'', embedding_vector = [91 / 100],
       chunk_web_url = None, chunk_has_watermark = True\<rparr>]"

definition example_config :: model_configuration where
  "example_config =
     \<lparr>active_provider = OpenAI, active_model_name = str ''gpt-4o-mini'',
      active_temperature = 7 / 10,
      credentials = (\<lambda>p. if p = OpenAI then Some (str ''sk-1'') else None)\<rparr>"

definition example_env :: rag_env where
  "example_env =
     \<lparr>encoder = (\<lambda>t. Some [1]),
      similarity = (\<lambda>q v. case v of [] \<Rightarrow> 0 | x # _ \<Rightarrow> x),
      index = Some example_chunks,
      top_k = 3,
      preview_of = take 300,
      delimiter = [0x0A],
      budget = 4000,
      system_prompt = str ''Answer only from the context and cite by number.'',
      llm = (\<lambda>p m k t sys u c. Inr (str ''See [1].'')),
      config = example_config\<rparr>"

definition example_sources :: "passage list" where
  "example_sources =
     [\<lparr>passage_chunk_id = 2, text_preview = str ''Plan of the pavilion'', score = 91 / 100,
       passage_filename = str ''Architectural Plans'', passage_web_url = None,
       passage_has_watermark = True\<rparr>,
      \<lparr>passage_chunk_id = 1, text_preview = str ''Minutes of the union'', score = 42 / 100,
       passage_filename = str ''Trade Union Records'', passage_web_url = None,
       passage_has_watermark = False\<rparr>]"

definition example_response :: rag_response where
  "example_response =
     \<lparr>answer_text = str ''See [1].'', sources = example_sources, context_used = True, num_sources = 2\<rparr>"

text \<open>The same environment with the index unreachable, and with no credential either.\<close>

definition example_env_down :: rag_env where
  "example_env_down = example_env\<lparr>index := None\<rparr>"



text \<open>A settings form about to save an Anthropic model and key.\<close>

definition example_settings :: settings_state where
  "example_settings =
     \<lparr>modelConfig = \<lparr>cfg_provider = str ''openai'', cfg_model_name = str ''gpt-4o-mini'',
                      cfg_temperature = 7 / 10, api_key_set = False\<rparr>,
      providers = [],
      formData = \<lparr>form_provider = str ''anthropic'', form_model_name = str ''claude-3-opus-20240229'',
                   form_temperature = 3 / 10, form_api_key = str ''sk-ant''\<rparr>,
      saving = False,
      notice = None\<rparr>"


section \<open>Properties of the source document view\<close>

lemma escapeHtml_Nil: "escapeHtml [] = []"
  by (simp add: escapeHtml_def)

lemma escapeHtml_Cons:
  "escapeHtml (c # cs) = (case escapeMap c of Some e \<Rightarrow> e | None \<Rightarrow> [c]) @ escapeHtml cs"
  by (simp add: escapeHtml_def)

lemma escapeHtml_append: "escapeHtml (a @ b) = escapeHtml a @ escapeHtml b"
  by (simp add: escapeHtml_def)

lemma escapeMap_range:
  "escapeMap c = Some e \<Longrightarrow> set e \<inter> {0x3C, 0x3E, 0x22, 0x27} = {}"
  by (auto simp: escapeMap_def str_def split: if_splits)

lemma escapeMap_None:
  "escapeMap c = None \<Longrightarrow> c \<notin> {0x26, 0x3C, 0x3E, 0x22, 0x27}"
  by (auto simp: escapeMap_def split: if_splits)

lemma escapeHtml_no_raw: "set (escapeHtml s) \<inter> {0x3C, 0x3E, 0x22, 0x27} = {}"
proof (induction s)
  case Nil
  show ?case by (simp add: escapeHtml_Nil)
next
  case (Cons c cs)
  show ?case
  proof (cases "escapeMap c")
    case None
    from escapeMap_None [OF None] Cons.IH show ?thesis
      by (simp add: escapeHtml_Cons None)
  next
    case (Some e)
    from escapeMap_range [OF Some] Cons.IH show ?thesis
      by (simp add: escapeHtml_Cons Some Int_Un_distrib2)
  qed
qed

lemma indexOfFrom_lower: "indexOfFrom s needle i = - 1 \<or> i \<le> indexOfFrom s needle i"
proof (induction s needle i rule: indexOfFrom.induct)
  case (1 needle i)
  show ?case by simp
next
  case (2 c cs needle i)
  then show ?case by (cases "prefix needle (c # cs)") auto
qed

lemma indexOfFrom_upper:
  "0 \<le> i \<Longrightarrow> indexOfFrom s needle i \<le> i + int (length s)"
proof (induction s needle i rule: indexOfFrom.induct)
  case (1 needle i)
  then show ?case by simp
next
  case (2 c cs needle i)
  then show ?case by (cases "prefix needle (c # cs)") auto
qed

lemma indexOf_range: "indexOf s needle = - 1 \<or> (0 \<le> indexOf s needle \<and> indexOf s needle \<le> int (length s))"
  using indexOfFrom_lower [of s needle 0] indexOfFrom_upper [of 0 s needle]
  by (auto simp: indexOf_def)

lemma findChunkInDocument_range:
  "findChunkInDocument d c = - 1 \<or> (0 \<le> findChunkInDocument d c \<and> findChunkInDocument d c \<le> int (length d))"
  unfolding findChunkInDocument_def Let_def
  using indexOf_range [of d "trim c"] indexOf_range [of d "substring (trim c) 0 100"]
    indexOf_range [of d "trim (firstLineOf (trim c))"]
  by (auto split: if_splits)

lemma substring_pieces:
  "substring d 0 i @ substring d i (i + n) @ substringFrom d (i + n) = d"
proof -
  have "take (min i (length d)) d = take i d" by (simp add: min_def)
  moreover have "substring d i (i + n) = take n (drop i d)"
    by (auto simp: substring_def Let_def min_def max_def)
  moreover have "substringFrom d (i + n) = drop (i + n) d"
    by (simp add: substringFrom_def min_def)
  moreover have "substring d 0 i = take i d"
    by (simp add: substring_def Let_def min_def max_def)
  moreover have "take i d @ take n (drop i d) @ drop (i + n) d = d"
    by (metis append_take_drop_id drop_drop add.commute)
  ultimately show ?thesis by simp
qed


section \<open>Properties of the chat view\<close>

lemma trim_blank: "\<forall>c\<in>set s. isWhiteSpace c \<Longrightarrow> trim s = []"
proof -
  assume "\<forall>c\<in>set s. isWhiteSpace c"
  then have "dropWhile isWhiteSpace s = []" by simp
  then show ?thesis by (simp add: trim_def del: dropWhile_eq_Nil_conv)
qed

lemma trim_Nil_iff: "trim s = [] \<longleftrightarrow> (\<forall>c\<in>set s. isWhiteSpace c)"
proof
  assume "trim s = []"
  then have all: "\<forall>c\<in>set (dropWhile isWhiteSpace s). isWhiteSpace c"
    by (simp add: trim_def)
  have "dropWhile isWhiteSpace s = []"
  proof (rule ccontr)
    assume ne: "dropWhile isWhiteSpace s \<noteq> []"
    then have "\<not> isWhiteSpace (hd (dropWhile isWhiteSpace s))" by (rule hd_dropWhile)
    moreover from ne have "hd (dropWhile isWhiteSpace s) \<in> set (dropWhile isWhiteSpace s)" by simp
    ultimately show False using all by blast
  qed
  then show "\<forall>c\<in>set s. isWhiteSpace c" by simp
next
  assume "\<forall>c\<in>set s. isWhiteSpace c"
  then show "trim s = []" by (rule trim_blank)
qed

text \<open>
  Claim C9. For an input that is empty or consists only of whitespace, \<open>sendMessage\<close>
  returns at once: the state (messages, input, typing indicator) is unchanged and no
  effect happens, so no request is posted and the indicator is never set. \<open>handleSubmit\<close>
  on such an input does nothing either.
\<close>

theorem sendMessage_blank_input:
  assumes "\<forall>c\<in>set input. isWhiteSpace c"
  shows "sendMessage post input st = (st, [])
       \<and> handleSubmit post (st\<lparr>inputMessage := input\<rparr>) = (st\<lparr>inputMessage := input\<rparr>, [])"
  using trim_blank [OF assms] by (simp add: sendMessage_def handleSubmit_def)

theorem sendMessage_blank_input_witness:
  "isWhiteSpace 0x20 \<and> isWhiteSpace 0x09 \<and> isWhiteSpace 0x0A \<and> isWhiteSpace 0x3000
   \<and> sendMessage (\<lambda>c. Inl NetworkError) [0x20, 0x09, 0x0A, 0x3000]
        \<lparr>messages = [], inputMessage = [0x20, 0x09, 0x0A, 0x3000], isTyping = False\<rparr>
      = (\<lparr>messages = [], inputMessage = [0x20, 0x09, 0x0A, 0x3000], isTyping = False\<rparr>, [])"
  using sendMessage_blank_input [of "[0x20, 0x09, 0x0A, 0x3000]" "\<lambda>c. Inl NetworkError"
      "\<lparr>messages = [], inputMessage = [0x20, 0x09, 0x0A, 0x3000], isTyping = False\<rparr>"]
  by (simp add: isWhiteSpace_def)


section \<open>Properties of the settings view\<close>

text \<open>
  Claim C7. The payload that \<open>saveConfig\<close> builds carries the provider, model name and
  temperature of the form and at most one credential property; with an empty API-key
  input it carries none, and a credential property that is present is the one of the
  selected provider and holds the API-key input.
\<close>

theorem savePayload_fields:
  "provider (savePayload fd) = form_provider fd
   \<and> model_name (savePayload fd) = form_model_name fd
   \<and> temperature (savePayload fd) = form_temperature fd
   \<and> length (filter (\<lambda>f. f \<noteq> None) (credential_fields (savePayload fd))) \<le> 1
   \<and> (form_api_key fd = [] \<longrightarrow> credential_fields (savePayload fd) = [None, None, None])
   \<and> (openai_api_key (savePayload fd) = Some k \<longrightarrow> form_provider fd = str ''openai'' \<and> k = form_api_key fd)
   \<and> (anthropic_api_key (savePayload fd) = Some k \<longrightarrow> form_provider fd = str ''anthropic'' \<and> k = form_api_key fd)
   \<and> (google_api_key (savePayload fd) = Some k \<longrightarrow> form_provider fd = str ''gemini'' \<and> k = form_api_key fd)"
  by (auto simp: savePayload_def credential_fields_def Let_def)

theorem savePayload_fields_witness:
  "credential_fields (savePayload \<lparr>form_provider = str ''openai'', form_model_name = str ''gpt-4o-mini'',
        form_temperature = 7 / 10, form_api_key = []\<rparr>) = [None, None, None]
   \<and> savePayload \<lparr>form_provider = str ''openai'', form_model_name = str ''gpt-4o-mini'',
        form_temperature = 7 / 10, form_api_key = str ''sk-1''\<rparr>
      = \<lparr>provider = str ''openai'', model_name = str ''gpt-4o-mini'', temperature = 7 / 10,
         openai_api_key = Some (str ''sk-1''), anthropic_api_key = None, google_api_key = None\<rparr>
   \<and> savePayload \<lparr>form_provider = str ''anthropic'', form_model_name = str ''claude-3-opus-20240229'',
        form_temperature = 0, form_api_key = str ''sk-2''\<rparr>
      = \<lparr>provider = str ''anthropic'', model_name = str ''claude-3-opus-20240229'', temperature = 0,
         openai_api_key = None, anthropic_api_key = Some (str ''sk-2''), google_api_key = None\<rparr>
   \<and> savePayload \<lparr>form_provider = str ''gemini'', form_model_name = str ''gemini-2.5-flash'',
        form_temperature = 1, form_api_key = str ''k3''\<rparr>
      = \<lparr>provider = str ''gemini'', model_name = str ''gemini-2.5-flash'', temperature = 1,
         openai_api_key = None, anthropic_api_key = None, google_api_key = Some (str ''k3'')\<rparr>"
  using
    savePayload_fields [of "\<lparr>form_provider = str ''openai'', form_model_name = str ''gpt-4o-mini'',
        form_temperature = 7 / 10, form_api_key = []\<rparr>" "[]"]
    savePayload_fields [of "\<lparr>form_provider = str ''openai'', form_model_name = str ''gpt-4o-mini'',
        form_temperature = 7 / 10, form_api_key = str ''sk-1''\<rparr>" "str ''sk-1''"]
    savePayload_fields [of "\<lparr>form_provider = str ''anthropic'', form_model_name = str ''claude-3-opus-20240229'',
        form_temperature = 0, form_api_key = str ''sk-2''\<rparr>" "str ''sk-2''"]
    savePayload_fields [of "\<lparr>form_provider = str ''gemini'', form_model_name = str ''gemini-2.5-flash'',
        form_temperature = 1, form_api_key = str ''k3''\<rparr>" "str ''k3''"]
  by (simp add: savePayload_def credential_fields_def str_def)


section \<open>Fallback of the source document view\<close>

text \<open>
  Claim C8. When the source has a filename and the request for the full document fails,
  \<open>fetchFullDocument\<close> shows the passage preview as the full document and clears the
  loading flag; the request was issued once and nothing stays pending.
\<close>

theorem fetchFullDocument_fallback:
  assumes "source st = Some s" and "filename s = Some fn" and "fn \<noteq> []" and "get fn = Inl err"
  shows "fetchFullDocument get st =
           (st\<lparr>fullDocument := preview s, loadingDocument := False\<rparr>,
            [SetLoading True, GetDocument fn, SetLoading False])"
  using assms by (simp add: fetchFullDocument_def)

theorem fetchFullDocument_fallback_witness:
  "fetchFullDocument (\<lambda>fn. Inl (HttpError 404 None))
     \<lparr>source = Some \<lparr>filename = Some (str ''plans.md''), preview = Some (str ''Plan of 1929''),
                       relevance_score = 91 / 100, web_url = None, has_watermark = False\<rparr>,
      fullDocument = Some [], loadingDocument = True\<rparr>
   = (\<lparr>source = Some \<lparr>filename = Some (str ''plans.md''), preview = Some (str ''Plan of 1929''),
                       relevance_score = 91 / 100, web_url = None, has_watermark = False\<rparr>,
       fullDocument = Some (str ''Plan of 1929''), loadingDocument = False\<rparr>,
      [SetLoading True, GetDocument (str ''plans.md''), SetLoading False])"
  using fetchFullDocument_fallback
    [of "\<lparr>source = Some \<lparr>filename = Some (str ''plans.md''), preview = Some (str ''Plan of 1929''),
                       relevance_score = 91 / 100, web_url = None, has_watermark = False\<rparr>,
         fullDocument = Some [], loadingDocument = True\<rparr>"
        "\<lparr>filename = Some (str ''plans.md''), preview = Some (str ''Plan of 1929''),
                       relevance_score = 91 / 100, web_url = None, has_watermark = False\<rparr>"
        "str ''plans.md''" "\<lambda>fn. Inl (HttpError 404 None)" "HttpError 404 None"]
  by (simp add: str_def)

section \<open>Escaping and highlighting in the source document view\<close>

lemma escapeHtml_single:
  "escapeHtml [0x26] = str ''&amp;''" "escapeHtml [0x3C] = str ''&lt;''"
  "escapeHtml [0x3E] = str ''&gt;''" "escapeHtml [0x22] = str ''&quot;''"
  "escapeHtml [0x27] = str ''&#039;''"
  by (simp_all add: escapeHtml_def escapeMap_def)

lemma escapeHtml_other:
  "c \<notin> {0x26, 0x3C, 0x3E, 0x22, 0x27} \<Longrightarrow> escapeHtml [c] = [c]"
  by (simp add: escapeHtml_def escapeMap_def)

lemma highlight_not_found:
  "src = Some ct \<Longrightarrow> preview ct = Some pv \<Longrightarrow> findChunkInDocument d pv = - 1 \<Longrightarrow>
   highlightChunkInOriginal src d = escapeHtml d"
  by (simp add: highlightChunkInOriginal_def)

lemma highlight_found:
  assumes "src = Some ct" "preview ct = Some pv" "d \<noteq> []" "pv \<noteq> []"
    and "findChunkInDocument d pv \<noteq> - 1"
  shows "highlightChunkInOriginal src d =
           escapeHtml (substring d 0 (nat (findChunkInDocument d pv))) @ markOpen @
           escapeHtml (substring d (nat (findChunkInDocument d pv))
                         (nat (findChunkInDocument d pv) + length (trim pv))) @ markClose @
           escapeHtml (substringFrom d (nat (findChunkInDocument d pv) + length (trim pv)))"
  using assms by (simp add: highlightChunkInOriginal_def Let_def)

lemma highlight_shape:
  "\<exists>before chunk after. d = before @ chunk @ after \<and>
     (highlightChunkInOriginal src d = escapeHtml d \<or>
      highlightChunkInOriginal src d =
        escapeHtml before @ markOpen @ escapeHtml chunk @ markClose @ escapeHtml after)"
proof (cases "\<exists>ct pv. src = Some ct \<and> preview ct = Some pv \<and> d \<noteq> [] \<and> pv \<noteq> []
                \<and> findChunkInDocument d pv \<noteq> - 1")
  case True
  then obtain ct pv where h: "src = Some ct" "preview ct = Some pv" "d \<noteq> []" "pv \<noteq> []"
    "findChunkInDocument d pv \<noteq> - 1" by blast
  let ?i = "nat (findChunkInDocument d pv)" and ?n = "length (trim pv)"
  have "d = substring d 0 ?i @ substring d ?i (?i + ?n) @ substringFrom d (?i + ?n)"
    by (simp add: substring_pieces)
  with highlight_found [OF h] show ?thesis by blast
next
  case False
  then have "highlightChunkInOriginal src d = escapeHtml d"
    by (auto simp: highlightChunkInOriginal_def Let_def split: option.splits)
  moreover have "d = [] @ [] @ d" by simp
  ultimately show ?thesis by blast
qed

text \<open>
  Claim C10. \<open>escapeHtml\<close> replaces every \<open>&\<close>, \<open><\<close>, \<open>>\<close>, double quote and single quote by
  its entity and leaves every other code unit, so its output holds no raw \<open><\<close>, \<open>>\<close> or
  quote. The original-text pane is either the escaped document, or the escaped text
  before, inside and after the located chunk with the one \<open>mark\<close> wrapper around the
  inside, the three pieces making up the document; when the chunk is not found it is
  exactly the escaped document.
\<close>

theorem escapeHtml_highlight_markup:
  "set (escapeHtml s) \<inter> {0x3C, 0x3E, 0x22, 0x27} = {}
   \<and> escapeHtml (a @ b) = escapeHtml a @ escapeHtml b
   \<and> escapeHtml [0x26] = str ''&amp;''
   \<and> escapeHtml [0x3C] = str ''&lt;''
   \<and> escapeHtml [0x3E] = str ''&gt;''
   \<and> escapeHtml [0x22] = str ''&quot;''
   \<and> escapeHtml [0x27] = str ''&#039;''
   \<and> (c \<notin> {0x26, 0x3C, 0x3E, 0x22, 0x27} \<longrightarrow> escapeHtml [c] = [c])
   \<and> (\<exists>before chunk after. d = before @ chunk @ after \<and>
         (highlightChunkInOriginal src d = escapeHtml d \<or>
          highlightChunkInOriginal src d =
            escapeHtml before @ markOpen @ escapeHtml chunk @ markClose @ escapeHtml after))
   \<and> (src = Some ct \<and> preview ct = Some pv \<and> findChunkInDocument d pv = - 1 \<longrightarrow>
         highlightChunkInOriginal src d = escapeHtml d)
   \<and> (src = Some ct \<and> preview ct = Some pv \<and> d \<noteq> [] \<and> pv \<noteq> [] \<and> findChunkInDocument d pv \<noteq> - 1 \<longrightarrow>
         highlightChunkInOriginal src d =
           escapeHtml (substring d 0 (nat (findChunkInDocument d pv))) @ markOpen @
           escapeHtml (substring d (nat (findChunkInDocument d pv))
                         (nat (findChunkInDocument d pv) + length (trim pv))) @ markClose @
           escapeHtml (substringFrom d (nat (findChunkInDocument d pv) + length (trim pv))))"
proof -
  have not_found: "src = Some ct \<and> preview ct = Some pv \<and> findChunkInDocument d pv = - 1 \<longrightarrow>
         highlightChunkInOriginal src d = escapeHtml d"
    using highlight_not_found by blast
  have found: "src = Some ct \<and> preview ct = Some pv \<and> d \<noteq> [] \<and> pv \<noteq> [] \<and> findChunkInDocument d pv \<noteq> - 1 \<longrightarrow>
         highlightChunkInOriginal src d =
           escapeHtml (substring d 0 (nat (findChunkInDocument d pv))) @ markOpen @
           escapeHtml (substring d (nat (findChunkInDocument d pv))
                         (nat (findChunkInDocument d pv) + length (trim pv))) @ markClose @
           escapeHtml (substringFrom d (nat (findChunkInDocument d pv) + length (trim pv)))"
    using highlight_found by blast
  have other: "c \<notin> {0x26, 0x3C, 0x3E, 0x22, 0x27} \<longrightarrow> escapeHtml [c] = [c]"
    using escapeHtml_other by blast
  from escapeHtml_no_raw [of s] escapeHtml_append [of a b] escapeHtml_single other
    highlight_shape [of d src] not_found found
  show ?thesis by (intro conjI)
qed

theorem escapeHtml_highlight_markup_witness:
  "escapeHtml [0x61] = [0x61]
   \<and> findChunkInDocument (str ''a <b> & c'') (str ''zz'') = - 1
   \<and> highlightChunkInOriginal
         (Some \<lparr>filename = None, preview = Some (str ''zz''), relevance_score = 0,
                web_url = None, has_watermark = False\<rparr>) (str ''a <b> & c'')
       = str ''a &lt;b&gt; &amp; c''
   \<and> findChunkInDocument (str ''a <b> & c'') (str ''  <b>  '') = 2
   \<and> highlightChunkInOriginal
         (Some \<lparr>filename = None, preview = Some (str ''  <b>  ''), relevance_score = 0,
                web_url = None, has_watermark = False\<rparr>) (str ''a <b> & c'')
       = str ''a '' @ markOpen @ str ''&lt;b&gt;'' @ markClose @ str '' &amp; c''"
  using
    escapeHtml_highlight_markup [of "[]" "[]" "[]" "0x61" "str ''a <b> & c''"
      "Some \<lparr>filename = None, preview = Some (str ''zz''), relevance_score = 0,
                web_url = None, has_watermark = False\<rparr>"
      "\<lparr>filename = None, preview = Some (str ''zz''), relevance_score = 0,
                web_url = None, has_watermark = False\<rparr>" "str ''zz''"]
    escapeHtml_highlight_markup [of "[]" "[]" "[]" "0x61" "str ''a <b> & c''"
      "Some \<lparr>filename = None, preview = Some (str ''  <b>  ''), relevance_score = 0,
                web_url = None, has_watermark = False\<rparr>"
      "\<lparr>filename = None, preview = Some (str ''  <b>  ''), relevance_score = 0,
                web_url = None, has_watermark = False\<rparr>" "str ''  <b>  ''"]
  by (simp add: highlightChunkInOriginal_def findChunkInDocument_def indexOf_def trim_def
      isWhiteSpace_def substring_def substringFrom_def firstLineOf_def escapeHtml_def escapeMap_def
      str_def markOpen_def markClose_def Let_def)


section \<open>Failure replies of the chat view\<close>

lemma str_Nil_iff: "str s = [] \<longleftrightarrow> s = []"
  by (simp add: str_def)

lemma indexOfFrom_found_iff:
  "0 \<le> i \<Longrightarrow> indexOfFrom s needle i \<noteq> - 1 \<longleftrightarrow> sublist needle s"
proof (induction s needle i rule: indexOfFrom.induct)
  case (1 needle i)
  then show ?case by auto
next
  case (2 c cs needle i)
  show ?case
  proof (cases "prefix needle (c # cs)")
    case True
    with 2 show ?thesis by (auto simp: sublist_Cons_right)
  next
    case False
    with 2 show ?thesis by (auto simp: sublist_Cons_right)
  qed
qed

lemma includes_str_iff: "includes_str s needle \<longleftrightarrow> (\<exists>p q. s = p @ needle @ q)"
  using indexOfFrom_found_iff [of 0 s needle] by (simp add: includes_str_def indexOf_def sublist_def)

lemma errorMessage_cases:
  "(sc = 400 \<and> includes_str d (str ''API_KEY'') \<longrightarrow>
      errorMessage (HttpError sc (Some d)) =
        str ''I'm having trouble processing your request. '' @
        str ''Please configure your AI model API key in Settings.'')
   \<and> (\<not> (sc = 400 \<and> includes_str d (str ''API_KEY'')) \<and> d \<noteq> [] \<longrightarrow>
      errorMessage (HttpError sc (Some d)) = str ''I'm having trouble processing your request. '' @ d)
   \<and> errorMessage (HttpError sc (Some [])) =
        str ''I'm having trouble processing your request. '' @
        str ''Please make sure the backend service is running and configured properly.''
   \<and> errorMessage (HttpError sc None) =
        str ''I'm having trouble processing your request. '' @
        str ''Please make sure the backend service is running and configured properly.''
   \<and> errorMessage NetworkError =
        str ''I'm having trouble processing your request. '' @
        str ''Please make sure the backend service is running and configured properly.''"
  by (auto simp: errorMessage_def includes_str_def indexOf_def str_Nil_iff)

lemma sendMessage_failure:
  "trim input \<noteq> [] \<Longrightarrow> post input = Inl err \<Longrightarrow>
   sendMessage post input st =
     (st\<lparr>messages := messages st @ [userMessage input, failureMessage err],
         inputMessage := [], isTyping := False\<rparr>,
      [ScrollToBottom, SetTyping True, PostChat input, SetTyping False, ScrollToBottom])"
  by (simp add: sendMessage_def Let_def)

text \<open>
  Claim C4, as amended. When the request of a non-blank input fails, \<open>sendMessage\<close>
  appends the user message and one assistant message. With status 400 and a detail that
  contains \<open>API_KEY\<close> its text asks to configure the API key in Settings; with any other
  non-empty detail (also one that contains \<open>API_KEY\<close> under another status) it is the
  processing-trouble text followed by the detail; with an empty or missing detail, or no
  response, it is the processing-trouble text followed by the hint about the backend.
\<close>

theorem sendMessage_failure_reply:
  "(trim input \<noteq> [] \<and> post input = Inl err \<longrightarrow>
      sendMessage post input st =
        (st\<lparr>messages := messages st @ [userMessage input, failureMessage err],
            inputMessage := [], isTyping := False\<rparr>,
         [ScrollToBottom, SetTyping True, PostChat input, SetTyping False, ScrollToBottom]))
   \<and> role (failureMessage err) = Assistant
   \<and> (sc = 400 \<and> includes_str d (str ''API_KEY'') \<longrightarrow>
        content (failureMessage (HttpError sc (Some d))) =
          str ''I'm having trouble processing your request. '' @
          str ''Please configure your AI model API key in Settings.'')
   \<and> (\<not> (sc = 400 \<and> includes_str d (str ''API_KEY'')) \<and> d \<noteq> [] \<longrightarrow>
        content (failureMessage (HttpError sc (Some d))) =
          str ''I'm having trouble processing your request. '' @ d)
   \<and> content (failureMessage (HttpError sc (Some []))) =
        str ''I'm having trouble processing your request. '' @
        str ''Please make sure the backend service is running and configured properly.''
   \<and> content (failureMessage (HttpError sc None)) =
        str ''I'm having trouble processing your request. '' @
        str ''Please make sure the backend service is running and configured properly.''
   \<and> content (failureMessage NetworkError) =
        str ''I'm having trouble processing your request. '' @
        str ''Please make sure the backend service is running and configured properly.''"
  using errorMessage_cases [of sc d] sendMessage_failure [of input post err st]
  by (simp add: failureMessage_def)

theorem sendMessage_failure_reply_witness:
  "includes_str (str ''OPENAI_API_KEY not set'') (str ''API_KEY'')
   \<and> sendMessage (\<lambda>c. Inl (HttpError 400 (Some (str ''OPENAI_API_KEY not set'')))) (str ''hi'')
        \<lparr>messages = [], inputMessage = str ''hi'', isTyping = False\<rparr>
      = (\<lparr>messages = [userMessage (str ''hi''),
                       failureMessage (HttpError 400 (Some (str ''OPENAI_API_KEY not set'')))],
          inputMessage = [], isTyping = False\<rparr>,
         [ScrollToBottom, SetTyping True, PostChat (str ''hi''), SetTyping False, ScrollToBottom])
   \<and> content (failureMessage (HttpError 400 (Some (str ''OPENAI_API_KEY not set'')))) =
        str ''I'm having trouble processing your request. Please configure your AI model API key in Settings.''
   \<and> content (failureMessage (HttpError 503 (Some (str ''index down'')))) =
        str ''I'm having trouble processing your request. index down''"
  using
    sendMessage_failure_reply [of "str ''hi''"
      "\<lambda>c. Inl (HttpError 400 (Some (str ''OPENAI_API_KEY not set'')))"
      "HttpError 400 (Some (str ''OPENAI_API_KEY not set''))"
      "\<lparr>messages = [], inputMessage = str ''hi'', isTyping = False\<rparr>"
      400 "str ''OPENAI_API_KEY not set''"]
    sendMessage_failure_reply [of "str ''hi''"
      "\<lambda>c. Inl (HttpError 400 (Some (str ''OPENAI_API_KEY not set'')))"
      "HttpError 400 (Some (str ''OPENAI_API_KEY not set''))"
      "\<lparr>messages = [], inputMessage = str ''hi'', isTyping = False\<rparr>"
      503 "str ''index down''"]
  by (simp add: includes_str_def indexOf_def trim_def isWhiteSpace_def str_def)

text \<open>
  The claim as stated fails: a detail that contains \<open>API_KEY\<close> under status 500 gets the
  generic text with the detail, and an empty detail is not carried but replaced by the
  hint about the backend.
\<close>

theorem errorMessage_API_KEY_counterexample:
  "includes_str (str ''OPENAI_API_KEY not set'') (str ''API_KEY'')
   \<and> content (failureMessage (HttpError 500 (Some (str ''OPENAI_API_KEY not set'')))) =
        str ''I'm having trouble processing your request. OPENAI_API_KEY not set''
   \<and> content (failureMessage (HttpError 500 (Some (str ''OPENAI_API_KEY not set'')))) \<noteq>
        str ''I'm having trouble processing your request. Please configure your AI model API key in Settings.''
   \<and> content (failureMessage (HttpError 500 (Some []))) \<noteq>
        str ''I'm having trouble processing your request. ''"
  by (simp add: failureMessage_def errorMessage_def includes_str_def indexOf_def str_def)

section \<open>Properties of the retrieval pipeline\<close>

lemma search_sorted:
  assumes "search env qv k = Inr hits"
  shows "sorted_wrt (\<lambda>a b. snd b \<le> snd a) hits \<and> length hits \<le> k"
proof -
  from assms obtain chunks where idx: "index env = Some chunks"
    and hits: "hits = take k (sort_key (\<lambda>h. - snd h)
                 (map (\<lambda>c. (chunk_id c, similarity env qv (embedding_vector c))) chunks))"
    by (auto simp: search_def split: option.splits)
  let ?all = "sort_key (\<lambda>h. - snd h)
                 (map (\<lambda>c. (chunk_id c, similarity env qv (embedding_vector c))) chunks)"
  have "sorted (map (\<lambda>h. - snd h) ?all)" by (rule sorted_sort_key)
  then have "sorted_wrt (\<lambda>a b. snd b \<le> snd a) ?all"
    by (simp add: sorted_map)
  then have "sorted_wrt (\<lambda>a b. snd b \<le> snd a) (take k ?all)"
    by (rule sorted_wrt_take)
  with hits show ?thesis by simp
qed

lemma clip01_mono: "x \<le> y \<Longrightarrow> clip01 x \<le> clip01 y"
  by (auto simp: clip01_def min_def max_def)

lemma clip01_range: "0 \<le> clip01 x \<and> clip01 x \<le> 1"
  by (auto simp: clip01_def min_def max_def)

lemma map_filter_Cons:
  "List.map_filter g (x # xs) = (case g x of None \<Rightarrow> List.map_filter g xs | Some y \<Rightarrow> y # List.map_filter g xs)"
  by (simp add: List.map_filter_def split: option.splits)

lemma set_map_filter_conv: "y \<in> set (List.map_filter g xs) \<longleftrightarrow> (\<exists>x\<in>set xs. g x = Some y)"
  by (induction xs) (auto simp: map_filter_Cons split: option.splits)

lemma length_map_filter_le: "length (List.map_filter g xs) \<le> length xs"
  by (induction xs) (auto simp: map_filter_Cons split: option.splits)

lemma sorted_wrt_map_filter:
  assumes "sorted_wrt R xs"
    and "\<And>x y a b. R x y \<Longrightarrow> g x = Some a \<Longrightarrow> g y = Some b \<Longrightarrow> Q a b"
  shows "sorted_wrt Q (List.map_filter g xs)"
  using assms(1)
proof (induction xs)
  case Nil
  show ?case by simp
next
  case (Cons x xs)
  then have tl: "sorted_wrt Q (List.map_filter g xs)" and hd: "\<forall>y\<in>set xs. R x y" by simp_all
  show ?case
  proof (cases "g x")
    case None
    with tl show ?thesis by (simp add: map_filter_Cons)
  next
    case (Some a)
    have "\<forall>b\<in>set (List.map_filter g xs). Q a b"
    proof
      fix b assume "b \<in> set (List.map_filter g xs)"
      then obtain y where y: "y \<in> set xs" "g y = Some b"
        by (auto simp: set_map_filter_conv)
      with hd have "R x y" by blast
      then show "Q a b" using Some y(2) by (rule assms(2))
    qed
    with tl Some show ?thesis by (simp add: map_filter_Cons)
  qed
qed

lemma retrieve_sorted:
  assumes "retrieve env q = Inr ps"
  shows "sorted_wrt (\<lambda>a b. score b \<le> score a) ps \<and> length ps \<le> top_k env
         \<and> (\<forall>p\<in>set ps. 0 \<le> score p \<and> score p \<le> 1)"
proof -
  from assms obtain qv hits where enc: "encode env q = Inr qv"
    and se: "search env qv (top_k env) = Inr hits"
    and ps: "ps = List.map_filter
                      (\<lambda>(cid, s). map_option (to_passage env s)
                          (find (\<lambda>c. chunk_id c = cid) (case index env of None \<Rightarrow> [] | Some cs \<Rightarrow> cs)))
                      hits"
    by (auto simp: retrieve_def split: sum.splits)
  let ?g = "\<lambda>(cid, s). map_option (to_passage env s)
                          (find (\<lambda>c. chunk_id c = cid) (case index env of None \<Rightarrow> [] | Some cs \<Rightarrow> cs))"
  have sc: "\<And>h p. ?g h = Some p \<Longrightarrow> score p = clip01 (snd h)"
    by (auto simp: to_passage_def split: prod.splits)
  from search_sorted [OF se] have s: "sorted_wrt (\<lambda>a b. snd b \<le> snd a) hits" and l: "length hits \<le> top_k env"
    by simp_all
  have "sorted_wrt (\<lambda>a b. score b \<le> score a) (List.map_filter ?g hits)"
  proof (rule sorted_wrt_map_filter [OF s])
    fix x y a b
    assume "snd y \<le> snd x" "?g x = Some a" "?g y = Some b"
    then show "score b \<le> score a" using sc clip01_mono by metis
  qed
  moreover have "length (List.map_filter ?g hits) \<le> top_k env"
    using length_map_filter_le [of ?g hits] l by simp
  moreover have "\<forall>p\<in>set (List.map_filter ?g hits). 0 \<le> score p \<and> score p \<le> 1"
  proof
    fix p assume "p \<in> set (List.map_filter ?g hits)"
    then obtain h where "?g h = Some p" unfolding set_map_filter_conv by blast
    then have "score p = clip01 (snd h)" by (rule sc)
    with clip01_range [of "snd h"] show "0 \<le> score p \<and> score p \<le> 1" by simp
  qed
  ultimately show ?thesis using ps by simp
qed

lemma answer_sources:
  assumes "answer env q = Inr r"
  shows "(retrieve env q = Inr (sources r) \<or> (retrieve env q = Inl IndexUnavailableError \<and> sources r = []))
         \<and> context_used r = (length (sources r) > 0) \<and> num_sources r = int (length (sources r))"
  using assms
  by (auto simp: answer_def Let_def split: sum.splits error.splits)

lemma sendMessage_success:
  "trim input \<noteq> [] \<Longrightarrow> post input = Inr d \<Longrightarrow>
   sendMessage post input st =
     (st\<lparr>messages := messages st @ [userMessage input, assistantMessage d],
         inputMessage := [], isTyping := False\<rparr>,
      [ScrollToBottom, SetTyping True, PostChat input, SetTyping False, ScrollToBottom])"
  by (simp add: sendMessage_def Let_def)

lemma example_retrieve: "retrieve example_env (str ''plans?'') = Inr example_sources"
  by (simp add: retrieve_def encode_def search_def example_env_def example_chunks_def
      example_sources_def to_passage_def clip01_def str_def List.map_filter_def)

lemma example_answer: "answer example_env (str ''plans?'') = Inr example_response"
  by (simp add: answer_def example_retrieve generate_def example_response_def)
     (simp add: example_env_def example_config_def example_sources_def)

lemma example_retrieve_down: "retrieve example_env_down (str ''plans?'') = Inl IndexUnavailableError"
  by (simp add: retrieve_def encode_def search_def example_env_down_def example_env_def str_def)


text \<open>
  Claim C1. In every response that \<open>answer\<close> produces, \<open>num_sources\<close> is the length of
  \<open>sources\<close> and \<open>context_used\<close> holds exactly when \<open>num_sources\<close> is positive. The body
  of \<open>POST /api/chat\<close> carries the same three values, and the assistant message that
  \<open>sendMessage\<close> stores from that body keeps them.
\<close>

theorem response_counts:
  "(answer env q = Inr r \<longrightarrow>
      num_sources r = int (length (sources r))
      \<and> context_used r = (0 < num_sources r)
      \<and> data_sources (chat_body r) = Some (map to_citation (sources r))
      \<and> data_num_sources (chat_body r) = Some (int (length (map to_citation (sources r))))
      \<and> data_context_used (chat_body r) = Some (0 < int (length (map to_citation (sources r))))
      \<and> msg_sources (assistantMessage (chat_body r)) = Some (map to_citation (sources r))
      \<and> msg_num_sources (assistantMessage (chat_body r)) = Some (int (length (map to_citation (sources r))))
      \<and> msg_context_used (assistantMessage (chat_body r)) = Some (0 < int (length (map to_citation (sources r)))))
   \<and> (trim input \<noteq> [] \<and> post input = Inr (chat_body r) \<longrightarrow>
        messages (fst (sendMessage post input st)) =
          messages st @ [userMessage input, assistantMessage (chat_body r)])"
proof -
  have "answer env q = Inr r \<Longrightarrow>
          num_sources r = int (length (sources r)) \<and> context_used r = (0 < num_sources r)"
    using answer_sources [of env q r] by simp
  moreover have "trim input \<noteq> [] \<and> post input = Inr (chat_body r) \<longrightarrow>
        messages (fst (sendMessage post input st)) =
          messages st @ [userMessage input, assistantMessage (chat_body r)]"
    using sendMessage_success [of input post "chat_body r" st] by simp
  ultimately show ?thesis
    by (simp add: chat_body_def assistantMessage_def)
qed

theorem response_counts_witness:
  "answer example_env (str ''plans?'') = Inr example_response
   \<and> num_sources example_response = 2
   \<and> length (sources example_response) = 2
   \<and> context_used example_response
   \<and> msg_num_sources (assistantMessage (chat_body example_response)) = Some 2
   \<and> msg_context_used (assistantMessage (chat_body example_response)) = Some True
   \<and> messages (fst (sendMessage (\<lambda>c. Inr (chat_body example_response)) (str ''plans?'')
        \<lparr>messages = [], inputMessage = str ''plans?'', isTyping = False\<rparr>))
      = [userMessage (str ''plans?''), assistantMessage (chat_body example_response)]"
  using response_counts [of example_env "str ''plans?''" example_response "str ''plans?''"
      "\<lambda>c. Inr (chat_body example_response)"
      "\<lparr>messages = [], inputMessage = str ''plans?'', isTyping = False\<rparr>"]
    example_answer
  by (simp add: example_response_def example_sources_def trim_def isWhiteSpace_def str_def)

text \<open>
  Claim C2. The hits of the index client are ordered by similarity, descending, and are
  at most \<open>top_k\<close>; so the \<open>sources\<close> of every response, and the citations of the body
  built from it, are in non-increasing order of \<open>relevance_score\<close> and at most \<open>top_k\<close>.
\<close>

theorem sources_ranked:
  "(search env qv k = Inr hits \<longrightarrow> sorted_wrt (\<lambda>a b. snd b \<le> snd a) hits \<and> length hits \<le> k)
   \<and> (answer env q = Inr r \<longrightarrow>
        sorted_wrt (\<lambda>a b. score b \<le> score a) (sources r)
        \<and> length (sources r) \<le> top_k env
        \<and> data_sources (chat_body r) = Some (map to_citation (sources r))
        \<and> sorted_wrt (\<lambda>a b. relevance_score b \<le> relevance_score a) (map to_citation (sources r)))"
proof -
  have a: "search env qv k = Inr hits \<longrightarrow> sorted_wrt (\<lambda>a b. snd b \<le> snd a) hits \<and> length hits \<le> k"
    using search_sorted by blast
  have b: "sorted_wrt (\<lambda>a b. score b \<le> score a) (sources r) \<and> length (sources r) \<le> top_k env"
    if "answer env q = Inr r"
  proof -
    from answer_sources [OF that]
    consider "retrieve env q = Inr (sources r)" | "sources r = []" by blast
    then show ?thesis
    proof cases
      case 1
      from retrieve_sorted [OF 1] show ?thesis by simp
    next
      case 2
      then show ?thesis by simp
    qed
  qed
  have c: "sorted_wrt (\<lambda>a b. relevance_score b \<le> relevance_score a) (map to_citation ps)
           = sorted_wrt (\<lambda>a b. score b \<le> score a) ps" for ps
    by (simp add: sorted_wrt_map to_citation_def)
  from a b c show ?thesis by (simp add: chat_body_def)
qed

theorem sources_ranked_witness:
  "search example_env [1] 3 = Inr [(2, 91 / 100), (1, 42 / 100)]
   \<and> answer example_env (str ''plans?'') = Inr example_response
   \<and> map passage_filename (sources example_response) =
       [str ''Architectural Plans'', str ''Trade Union Records'']
   \<and> map score (sources example_response) = [91 / 100, 42 / 100]
   \<and> sorted_wrt (\<lambda>a b. score b \<le> score a) (sources example_response)
   \<and> length (sources example_response) \<le> top_k example_env"
  using sources_ranked [of example_env "[1]" 3 "[(2, 91 / 100), (1, 42 / 100)]" "str ''plans?''"
      example_response]
    example_answer
  by (simp add: example_response_def example_sources_def example_env_def search_def
      example_chunks_def)







section \<open>Citation ordinals\<close>

lemma within_budget_prefix: "prefix (within_budget env es) es"
proof (induction env es rule: within_budget.induct)
  case (1 env es)
  show ?case
  proof (cases "length (join (delimiter env) (map render_entry es)) \<le> budget env \<or> length es \<le> 1")
    case True
    then show ?thesis by (simp add: within_budget.simps [of env es])
  next
    case False
    with 1 have "prefix (within_budget env (butlast es)) (butlast es)" by simp
    moreover have "prefix (butlast es) es" by (rule prefixeq_butlast)
    ultimately have "prefix (within_budget env (butlast es)) es" by (rule prefix_order.trans)
    with False show ?thesis by (simp add: within_budget.simps [of env es])
  qed
qed

lemma within_budget_stop:
  "length (join (delimiter env) (map render_entry es)) \<le> budget env \<or> length es \<le> 1 \<Longrightarrow>
   within_budget env es = es"
  by (subst within_budget.simps) simp

lemma within_budget_step:
  "\<not> (length (join (delimiter env) (map render_entry es)) \<le> budget env \<or> length es \<le> 1) \<Longrightarrow>
   within_budget env es = within_budget env (butlast es)"
  by (subst within_budget.simps) simp

lemma within_budget_nonempty: "es \<noteq> [] \<Longrightarrow> within_budget env es \<noteq> []"
proof (induction env es rule: within_budget.induct)
  case (1 env es)
  show ?case
  proof (cases "length (join (delimiter env) (map render_entry es)) \<le> budget env \<or> length es \<le> 1")
    case True
    then have "within_budget env es = es" by (rule within_budget_stop)
    with "1.prems" show ?thesis by simp
  next
    case False
    then have two: "1 < length es" by simp
    then have "0 < length (butlast es)" by simp
    then have ne: "butlast es \<noteq> []" by (simp del: length_butlast)
    from False ne have "within_budget env (butlast es) \<noteq> []" by (rule "1.IH")
    moreover from False have "within_budget env es = within_budget env (butlast es)"
      by (rule within_budget_step)
    ultimately show ?thesis by simp
  qed
qed

lemma labelled_length: "length (labelled ps) = length ps"
  by (simp add: labelled_def)

lemma labelled_nth: "i < length ps \<Longrightarrow> labelled ps ! i = (i + 1, ps ! i)"
  by (simp add: labelled_def nth_enumerate_eq)

lemma context_entries_nth:
  assumes "i < length (context_entries env ps)"
  shows "context_entries env ps ! i = (i + 1, ps ! i) \<and> i < length ps"
proof -
  have p: "prefix (context_entries env ps) (labelled ps)"
    unfolding context_entries_def by (rule within_budget_prefix)
  then have "length (context_entries env ps) \<le> length (labelled ps)"
    by (rule prefix_length_le)
  then have le: "length (context_entries env ps) \<le> length ps"
    by (simp add: labelled_length)
  from p obtain zs where "labelled ps = context_entries env ps @ zs" by (auto simp: prefix_def)
  with assms have "context_entries env ps ! i = labelled ps ! i" by (simp add: nth_append)
  with assms le show ?thesis by (simp add: labelled_nth)
qed

lemma sourceCards_nth:
  assumes "role m = Assistant" "msg_sources m = Some ss" "i < length ss"
  shows "length (sourceCards m) = length ss \<and> sourceCards m ! i = (i + 1, ss ! i)"
  using assms by (auto simp: sourceCards_def nth_enumerate_eq)

lemma context_entries_nonempty: "ps \<noteq> [] \<Longrightarrow> context_entries env ps \<noteq> []"
proof -
  assume "ps \<noteq> []"
  then have "labelled ps \<noteq> []" using labelled_length [of ps] by (cases "labelled ps") auto
  then show ?thesis unfolding context_entries_def by (rule within_budget_nonempty)
qed

lemma sourceCards_body:
  assumes "i < length (sources r)"
  shows "sourceCards (assistantMessage (chat_body r)) ! i = (i + 1, to_citation (sources r ! i))"
proof -
  have "role (assistantMessage (chat_body r)) = Assistant"
    and "msg_sources (assistantMessage (chat_body r)) = Some (map to_citation (sources r))"
    by (simp_all add: assistantMessage_def chat_body_def)
  moreover from assms have "i < length (map to_citation (sources r))" by simp
  ultimately have "sourceCards (assistantMessage (chat_body r)) ! i = (i + 1, map to_citation (sources r) ! i)"
    using sourceCards_nth by blast
  with assms show ?thesis by simp
qed


lemma ex_labelled: "labelled example_sources = [(1, example_sources ! 0), (2, example_sources ! 1)]"
  by (simp add: labelled_def example_sources_def)

lemma ex_ctx: "context_entries example_env example_sources = [(1, example_sources ! 0), (2, example_sources ! 1)]"
  unfolding context_entries_def ex_labelled
  by (rule within_budget_stop)
     (simp add: example_env_def example_sources_def render_entry_def str_def decimal.simps)

lemma ex_build: "build_context example_env example_sources =
   str ''[1] Architectural Plans: Plan of the pavilion'' @ [0x0A] @ str ''[2] Trade Union Records: Minutes of the union''"
  by (simp add: build_context_def ex_ctx)
     (simp add: example_env_def example_sources_def render_entry_def str_def decimal.simps)

lemma decimal_digit: "n < 10 \<Longrightarrow> decimal n = [of_nat (48 + n)]"
  by (subst decimal.simps) simp

lemma decimal_more: "\<not> n < 10 \<Longrightarrow> decimal n = decimal (n div 10) @ [of_nat (48 + n mod 10)]"
  by (subst decimal.simps) simp

lemma digit_value: "d < 10 \<Longrightarrow> unat (of_nat (48 + d) :: jschar) - 48 = d"
  by (simp add: unat_of_nat del: of_nat_add)

lemma decimal_value: "foldl (\<lambda>a d. 10 * a + (unat d - 48)) 0 (decimal n) = n"
proof (induction n rule: decimal.induct)
  case (1 n)
  show ?case
  proof (cases "n < 10")
    case True
    then show ?thesis by (simp add: decimal_digit digit_value del: of_nat_add)
  next
    case False
    have "n mod 10 < 10" by simp
    then have d: "unat (of_nat (48 + n mod 10) :: jschar) - 48 = n mod 10" by (rule digit_value)
    from False 1 have "foldl (\<lambda>a d. 10 * a + (unat d - 48)) 0 (decimal (n div 10)) = n div 10"
      by simp
    with False d show ?thesis by (simp add: decimal_more del: of_nat_add)
  qed
qed

lemma within_budget_fits:
  "length (within_budget env es) \<le> 1
   \<or> length (join (delimiter env) (map render_entry (within_budget env es))) \<le> budget env"
proof (induction env es rule: within_budget.induct)
  case (1 env es)
  show ?case
  proof (cases "length (join (delimiter env) (map render_entry es)) \<le> budget env \<or> length es \<le> 1")
    case True
    then have "within_budget env es = es" by (rule within_budget_stop)
    with True show ?thesis by auto
  next
    case False
    then have "within_budget env es = within_budget env (butlast es)" by (rule within_budget_step)
    with False "1.IH" show ?thesis by simp
  qed
qed

lemma join_Cons: "ys \<noteq> [] \<Longrightarrow> join d (x # ys) = x @ d @ join d ys"
  by (cases ys) simp_all

lemma join_append:
  "xs \<noteq> [] \<Longrightarrow> ys \<noteq> [] \<Longrightarrow> join d (xs @ ys) = join d xs @ d @ join d ys"
proof (induction xs)
  case Nil
  then show ?case by simp
next
  case (Cons x xs)
  show ?case
  proof (cases "xs = []")
    case True
    with Cons.prems show ?thesis by (simp add: join_Cons)
  next
    case False
    with Cons have "join d (xs @ ys) = join d xs @ d @ join d ys" by simp
    with False Cons.prems show ?thesis by (simp add: join_Cons)
  qed
qed

lemma join_nth:
  assumes "i < length es"
  shows "join d es =
           join d (take i es) @ (if i = 0 then [] else d) @ es ! i @
           (if Suc i = length es then [] else d) @ join d (drop (Suc i) es)"
proof -
  from assms have split: "es = take i es @ (es ! i # drop (Suc i) es)"
    by (simp add: id_take_nth_drop [symmetric])
  have tail: "join d (es ! i # drop (Suc i) es) =
                es ! i @ (if Suc i = length es then [] else d) @ join d (drop (Suc i) es)"
  proof (cases "Suc i = length es")
    case True
    then show ?thesis by simp
  next
    case False
    with assms have "drop (Suc i) es \<noteq> []" by simp
    with False show ?thesis by (simp add: join_Cons)
  qed
  show ?thesis
  proof (cases "i = 0")
    case True
    with tail split show ?thesis by (cases es) simp_all
  next
    case False
    with assms have "take i es \<noteq> []" by auto
    then have "join d (take i es @ (es ! i # drop (Suc i) es)) =
                 join d (take i es) @ d @ join d (es ! i # drop (Suc i) es)"
      by (rule join_append) simp
    with split have "join d es = join d (take i es) @ d @ join d (es ! i # drop (Suc i) es)"
      by simp
    with tail False show ?thesis by simp
  qed
qed

lemma answer_generate:
  assumes "answer env q = Inr r"
  shows "generate env (system_prompt env) q
           (if sources r = [] then [] else build_context env (sources r)) = Inr (answer_text r)"
  using assms
  by (auto simp: answer_def Let_def split: sum.splits error.splits if_splits)

lemma rendered_nth:
  assumes "i < length (context_entries env ps)"
  shows "map render_entry (context_entries env ps) ! i =
           str ''['' @ decimal (i + 1) @ str ''] '' @ passage_filename (ps ! i) @
           str '': '' @ text_preview (ps ! i)"
  using assms context_entries_nth [OF assms] by (simp add: render_entry_def)

lemma build_context_uncut:
  assumes "1 < length (context_entries env ps)"
  shows "build_context env ps = join (delimiter env) (map render_entry (context_entries env ps))"
proof -
  from within_budget_fits [of env "labelled ps"] assms
  have "length (join (delimiter env) (map render_entry (context_entries env ps))) \<le> budget env"
    by (simp add: context_entries_def)
  then show ?thesis by (simp add: build_context_def)
qed

lemma example_generate:
  "generate example_env (system_prompt example_env) q c = Inr (str ''See [1].'')"
  by (simp add: generate_def example_env_def example_config_def)

text \<open>
  Claim C6. The source card at index \<open>i\<close> of an assistant message carries the badge
  \<open>i + 1\<close> and shows the \<open>i\<close>-th source. The context block is built from the entries
  that the budget keeps, a prefix of the passages labelled from 1: the entry at index
  \<open>i\<close> is rendered as \<open>[i + 1]\<close>, in decimal digits that denote \<open>i + 1\<close>, followed by the
  filename and the preview of the \<open>i\<close>-th passage, and stands in the block between the
  entries before and after it; the block is cut only when a single entry is left. For a
  response of \<open>answer\<close> the LLM client was called with the block built from the
  \<open>sources\<close> of that response, and the card at index \<open>i\<close> is the citation of the passage
  of entry \<open>i\<close>, under the same ordinal, filename and preview.
\<close>

theorem citation_ordinals:
  "(role m = Assistant \<and> msg_sources m = Some ss \<and> i < length ss \<longrightarrow>
      length (sourceCards m) = length ss \<and> sourceCards m ! i = (i + 1, ss ! i))
   \<and> prefix (context_entries env ps) (labelled ps)
   \<and> (ps \<noteq> [] \<longrightarrow> context_entries env ps \<noteq> [])
   \<and> (i < length (context_entries env ps) \<longrightarrow>
        i < length ps \<and> context_entries env ps ! i = (i + 1, ps ! i))
   \<and> (answer env q = Inr r \<and> i < length (sources r) \<longrightarrow>
        sourceCards (assistantMessage (chat_body r)) ! i = (i + 1, to_citation (sources r ! i)))
   \<and> (i < length (context_entries env ps) \<longrightarrow>
        map render_entry (context_entries env ps) ! i =
          str ''['' @ decimal (i + 1) @ str ''] '' @ passage_filename (ps ! i) @
          str '': '' @ text_preview (ps ! i))
   \<and> foldl (\<lambda>a d. 10 * a + (unat d - 48)) 0 (decimal n) = n
   \<and> build_context env ps =
        take (budget env) (join (delimiter env) (map render_entry (context_entries env ps)))
   \<and> (1 < length (context_entries env ps) \<longrightarrow>
        build_context env ps = join (delimiter env) (map render_entry (context_entries env ps)))
   \<and> (i < length es \<longrightarrow>
        join d es =
          join d (take i es) @ (if i = 0 then [] else d) @ es ! i @
          (if Suc i = length es then [] else d) @ join d (drop (Suc i) es))
   \<and> (answer env q = Inr r \<longrightarrow>
        generate env (system_prompt env) q
          (if sources r = [] then [] else build_context env (sources r)) = Inr (answer_text r))
   \<and> (answer env q = Inr r \<and> i < length (context_entries env (sources r)) \<longrightarrow>
        fst (sourceCards (assistantMessage (chat_body r)) ! i) =
          fst (context_entries env (sources r) ! i)
        \<and> filename (snd (sourceCards (assistantMessage (chat_body r)) ! i)) =
            Some (passage_filename (snd (context_entries env (sources r) ! i)))
        \<and> preview (snd (sourceCards (assistantMessage (chat_body r)) ! i)) =
            Some (text_preview (snd (context_entries env (sources r) ! i))))"
proof (intro conjI impI)
  assume "role m = Assistant \<and> msg_sources m = Some ss \<and> i < length ss"
  then show "length (sourceCards m) = length ss" using sourceCards_nth by blast
next
  assume "role m = Assistant \<and> msg_sources m = Some ss \<and> i < length ss"
  then show "sourceCards m ! i = (i + 1, ss ! i)" using sourceCards_nth by blast
next
  show "prefix (context_entries env ps) (labelled ps)"
    unfolding context_entries_def by (rule within_budget_prefix)
next
  assume "ps \<noteq> []"
  then show "context_entries env ps \<noteq> []" by (rule context_entries_nonempty)
next
  assume "i < length (context_entries env ps)"
  then show "i < length ps" using context_entries_nth by blast
next
  assume "i < length (context_entries env ps)"
  then show "context_entries env ps ! i = (i + 1, ps ! i)" using context_entries_nth by blast
next
  assume "answer env q = Inr r \<and> i < length (sources r)"
  then show "sourceCards (assistantMessage (chat_body r)) ! i = (i + 1, to_citation (sources r ! i))"
    using sourceCards_body by blast
next
  assume "i < length (context_entries env ps)"
  then show "map render_entry (context_entries env ps) ! i =
          str ''['' @ decimal (i + 1) @ str ''] '' @ passage_filename (ps ! i) @
          str '': '' @ text_preview (ps ! i)"
    by (rule rendered_nth)
next
  show "foldl (\<lambda>a d. 10 * a + (unat d - 48)) 0 (decimal n) = n" by (rule decimal_value)
next
  show "build_context env ps =
        take (budget env) (join (delimiter env) (map render_entry (context_entries env ps)))"
    by (simp add: build_context_def)
next
  assume "1 < length (context_entries env ps)"
  then show "build_context env ps = join (delimiter env) (map render_entry (context_entries env ps))"
    by (rule build_context_uncut)
next
  assume "i < length es"
  then show "join d es =
          join d (take i es) @ (if i = 0 then [] else d) @ es ! i @
          (if Suc i = length es then [] else d) @ join d (drop (Suc i) es)"
    by (rule join_nth)
next
  assume "answer env q = Inr r"
  then show "generate env (system_prompt env) q
          (if sources r = [] then [] else build_context env (sources r)) = Inr (answer_text r)"
    by (rule answer_generate)
next
  assume h: "answer env q = Inr r \<and> i < length (context_entries env (sources r))"
  then have e: "context_entries env (sources r) ! i = (i + 1, sources r ! i)"
    and l: "i < length (sources r)"
    using context_entries_nth [of i env "sources r"] by simp_all
  from l have c: "sourceCards (assistantMessage (chat_body r)) ! i = (i + 1, to_citation (sources r ! i))"
    by (rule sourceCards_body)
  from e c show "fst (sourceCards (assistantMessage (chat_body r)) ! i) =
          fst (context_entries env (sources r) ! i)" by simp
  from e c show "filename (snd (sourceCards (assistantMessage (chat_body r)) ! i)) =
            Some (passage_filename (snd (context_entries env (sources r) ! i)))"
    by (simp add: to_citation_def)
  from e c show "preview (snd (sourceCards (assistantMessage (chat_body r)) ! i)) =
            Some (text_preview (snd (context_entries env (sources r) ! i)))"
    by (simp add: to_citation_def)
qed

theorem citation_ordinals_witness:
  "answer example_env (str ''plans?'') = Inr example_response
   \<and> context_entries example_env example_sources = [(1, example_sources ! 0), (2, example_sources ! 1)]
   \<and> map render_entry (context_entries example_env example_sources) ! 1 =
        str ''[2] Trade Union Records: Minutes of the union''
   \<and> build_context example_env example_sources =
        str ''[1] Architectural Plans: Plan of the pavilion'' @ [0x0A] @
        str ''[2] Trade Union Records: Minutes of the union''
   \<and> generate example_env (system_prompt example_env) (str ''plans?'')
        (build_context example_env example_sources) = Inr (str ''See [1].'')
   \<and> sourceCards (assistantMessage (chat_body example_response)) ! 1 =
        (2, to_citation (example_sources ! 1))
   \<and> filename (snd (sourceCards (assistantMessage (chat_body example_response)) ! 1)) =
        Some (str ''Trade Union Records'')"
  using citation_ordinals [where m = "assistantMessage (chat_body example_response)"
      and ss = "map to_citation example_sources" and i = 1 and env = example_env
      and ps = example_sources and q = "str ''plans?''" and r = example_response
      and n = 2 and d = "[0x0A]"
      and es = "map render_entry (context_entries example_env example_sources)"]
    ex_ctx ex_build example_answer example_generate [of "str ''plans?''" "build_context example_env example_sources"]
  by (simp add: example_response_def example_sources_def assistantMessage_def chat_body_def
      to_citation_def render_entry_def decimal.simps str_def)


section \<open>Round trip of the model configuration\<close>

lemma parse_provider_id: "parse_provider (provider_id X) = Some X"
  by (cases X) (simp_all add: parse_provider_def str_def)

lemma decode_savePayload:
  assumes "form_provider fd = provider_id X"
  shows "decode_payload (savePayload fd) =
           Some \<lparr>upd_provider = Some X, upd_model_name = Some (form_model_name fd),
                 upd_temperature = Some (form_temperature fd),
                 upd_credential = (if form_api_key fd = [] then None else Some (X, form_api_key fd))\<rparr>"
  using assms
  by (cases X)
     (simp_all add: decode_payload_def savePayload_def payload_credentials_def parse_provider_def
        str_def Let_def)

lemma read_update:
  "read_config (update_config \<lparr>upd_provider = Some X, upd_model_name = Some Y,
       upd_temperature = Some T, upd_credential = k\<rparr> c)
   = \<lparr>view_provider = X, view_model_name = Y, view_temperature = T,
      view_api_key_set = (\<lambda>p. (case k of None \<Rightarrow> credentials c | Some (p', key) \<Rightarrow> (credentials c)(p' := Some key)) p \<noteq> None)\<rparr>"
  by (simp add: read_config_def update_config_def split: option.splits prod.splits)

lemma read_hides_credentials:
  "\<forall>p. (ks p = None) = (ks' p = None) \<Longrightarrow>
   read_config (c\<lparr>credentials := ks\<rparr>) = read_config (c\<lparr>credentials := ks'\<rparr>)"
  by (simp add: read_config_def)

lemma saveConfig_round_trip:
  assumes "formData st = \<lparr>form_provider = provider_id X, form_model_name = Y,
                            form_temperature = T, form_api_key = key\<rparr>"
    and "getProviders = (\<lambda>b. Inr ps)"
  shows "formData (fst (saveConfig post_model_config get_model_config getProviders c st)) =
           \<lparr>form_provider = provider_id X, form_model_name = Y, form_temperature = T, form_api_key = []\<rparr>
         \<and> cfg_provider (modelConfig (fst (saveConfig post_model_config get_model_config getProviders c st))) = provider_id X
         \<and> cfg_model_name (modelConfig (fst (saveConfig post_model_config get_model_config getProviders c st))) = Y
         \<and> cfg_temperature (modelConfig (fst (saveConfig post_model_config get_model_config getProviders c st))) = T"
proof -
  have d: "decode_payload (savePayload (formData st)) =
           Some \<lparr>upd_provider = Some X, upd_model_name = Some Y, upd_temperature = Some T,
                 upd_credential = (if key = [] then None else Some (X, key))\<rparr>"
    using decode_savePayload [of "formData st" X] assms(1) by simp
  show ?thesis
    by (simp add: saveConfig_def Let_def post_model_config_def d loadConfig_def get_model_config_def
        assms(2) config_json_def read_update loadForm_def)
qed

text \<open>
  Claim C5. Updating the configuration with provider \<open>X\<close>, model name \<open>Y\<close> and
  temperature \<open>T\<close> and then reading it returns exactly \<open>X\<close>, \<open>Y\<close> and \<open>T\<close>; a read shows
  of the credentials only whether each is set, so two stores that differ in the keys
  but not in their presence read the same. Through the settings view: after
  \<open>saveConfig\<close> on a form with \<open>X\<close>, \<open>Y\<close>, \<open>T\<close> the reloaded form and configuration
  hold \<open>X\<close>, \<open>Y\<close>, \<open>T\<close>, and the key input is empty again.
\<close>

theorem config_round_trip:
  "read_config (update_config \<lparr>upd_provider = Some X, upd_model_name = Some Y,
       upd_temperature = Some T, upd_credential = k\<rparr> c)
   = \<lparr>view_provider = X, view_model_name = Y, view_temperature = T,
      view_api_key_set = (\<lambda>p. (case k of None \<Rightarrow> credentials c
                                  | Some (p', key) \<Rightarrow> (credentials c)(p' := Some key)) p \<noteq> None)\<rparr>
   \<and> get_model_config (update_config \<lparr>upd_provider = Some X, upd_model_name = Some Y,
         upd_temperature = Some T, upd_credential = k\<rparr> c)
     = Inr \<lparr>cfg_provider = provider_id X, cfg_model_name = Y, cfg_temperature = T,
            api_key_set = ((case k of None \<Rightarrow> credentials c
                            | Some (p', key) \<Rightarrow> (credentials c)(p' := Some key)) X \<noteq> None)\<rparr>
   \<and> ((\<forall>p. (ks p = None) = (ks' p = None)) \<longrightarrow>
        read_config (c\<lparr>credentials := ks\<rparr>) = read_config (c\<lparr>credentials := ks'\<rparr>))
   \<and> (formData st = \<lparr>form_provider = provider_id X, form_model_name = Y,
                       form_temperature = T, form_api_key = key\<rparr>
        \<and> getProviders = (\<lambda>b. Inr ps) \<longrightarrow>
        formData (fst (saveConfig post_model_config get_model_config getProviders c st)) =
           \<lparr>form_provider = provider_id X, form_model_name = Y, form_temperature = T, form_api_key = []\<rparr>
        \<and> cfg_provider (modelConfig (fst (saveConfig post_model_config get_model_config getProviders c st))) = provider_id X
        \<and> cfg_model_name (modelConfig (fst (saveConfig post_model_config get_model_config getProviders c st))) = Y
        \<and> cfg_temperature (modelConfig (fst (saveConfig post_model_config get_model_config getProviders c st))) = T)"
proof (intro conjI impI)
  show "read_config (update_config \<lparr>upd_provider = Some X, upd_model_name = Some Y,
       upd_temperature = Some T, upd_credential = k\<rparr> c)
   = \<lparr>view_provider = X, view_model_name = Y, view_temperature = T,
      view_api_key_set = (\<lambda>p. (case k of None \<Rightarrow> credentials c
                                  | Some (p', key) \<Rightarrow> (credentials c)(p' := Some key)) p \<noteq> None)\<rparr>"
    by (rule read_update)
next
  show "get_model_config (update_config \<lparr>upd_provider = Some X, upd_model_name = Some Y,
         upd_temperature = Some T, upd_credential = k\<rparr> c)
     = Inr \<lparr>cfg_provider = provider_id X, cfg_model_name = Y, cfg_temperature = T,
            api_key_set = ((case k of None \<Rightarrow> credentials c
                            | Some (p', key) \<Rightarrow> (credentials c)(p' := Some key)) X \<noteq> None)\<rparr>"
    by (simp add: get_model_config_def config_json_def read_update)
next
  assume "\<forall>p. (ks p = None) = (ks' p = None)"
  then show "read_config (c\<lparr>credentials := ks\<rparr>) = read_config (c\<lparr>credentials := ks'\<rparr>)"
    by (rule read_hides_credentials)
next
  assume h: "formData st = \<lparr>form_provider = provider_id X, form_model_name = Y,
                       form_temperature = T, form_api_key = key\<rparr>
        \<and> getProviders = (\<lambda>b. Inr ps)"
  from h saveConfig_round_trip [of st X Y T key getProviders ps c]
  show "formData (fst (saveConfig post_model_config get_model_config getProviders c st)) =
           \<lparr>form_provider = provider_id X, form_model_name = Y, form_temperature = T, form_api_key = []\<rparr>"
    by blast
  from h saveConfig_round_trip [of st X Y T key getProviders ps c]
  show "cfg_provider (modelConfig (fst (saveConfig post_model_config get_model_config getProviders c st))) = provider_id X"
    by blast
  from h saveConfig_round_trip [of st X Y T key getProviders ps c]
  show "cfg_model_name (modelConfig (fst (saveConfig post_model_config get_model_config getProviders c st))) = Y"
    by blast
  from h saveConfig_round_trip [of st X Y T key getProviders ps c]
  show "cfg_temperature (modelConfig (fst (saveConfig post_model_config get_model_config getProviders c st))) = T"
    by blast
qed


theorem config_round_trip_witness:
  "get_model_config (update_config \<lparr>upd_provider = Some Anthropic,
         upd_model_name = Some (str ''claude-3-opus-20240229''),
         upd_temperature = Some (3 / 10), upd_credential = Some (Anthropic, str ''sk-ant'')\<rparr> example_config)
     = Inr \<lparr>cfg_provider = str ''anthropic'', cfg_model_name = str ''claude-3-opus-20240229'',
            cfg_temperature = 3 / 10, api_key_set = True\<rparr>
   \<and> read_config (example_config\<lparr>credentials := (\<lambda>p. if p = OpenAI then Some (str ''sk-1'') else None)\<rparr>)
     = read_config (example_config\<lparr>credentials := (\<lambda>p. if p = OpenAI then Some (str ''sk-2'') else None)\<rparr>)
   \<and> formData (fst (saveConfig post_model_config get_model_config (\<lambda>b. Inr []) example_config example_settings))
     = \<lparr>form_provider = str ''anthropic'', form_model_name = str ''claude-3-opus-20240229'',
        form_temperature = 3 / 10, form_api_key = []\<rparr>
   \<and> modelConfig (fst (saveConfig post_model_config get_model_config (\<lambda>b. Inr []) example_config example_settings))
     = \<lparr>cfg_provider = str ''anthropic'', cfg_model_name = str ''claude-3-opus-20240229'',
        cfg_temperature = 3 / 10, api_key_set = True\<rparr>"
  using config_round_trip [where X = Anthropic and Y = "str ''claude-3-opus-20240229''"
      and T = "3 / 10" and k = "Some (Anthropic, str ''sk-ant'')" and c = example_config
      and ks = "\<lambda>p. if p = OpenAI then Some (str ''sk-1'') else None"
      and ks' = "\<lambda>p. if p = OpenAI then Some (str ''sk-2'') else None"
      and st = example_settings and key = "str ''sk-ant''"
      and getProviders = "\<lambda>b. Inr []" and ps = "[]"]
  by (simp add: example_settings_def example_config_def saveConfig_def savePayload_def
      post_model_config_def decode_payload_def parse_provider_def payload_credentials_def
      update_config_def loadConfig_def get_model_config_def config_json_def read_config_def
      loadForm_def Let_def str_def)

end
